theory Spec2Isabelle
  imports
    Main
    "HOL-Library.Char_ord"
    "HOL-Library.List_Lexorder"
    "HOL-Library.Product_Lexorder"
    "HOL-Library.Multiset"
begin

section \<open>Parsed JSON documents and the Python operations applied to them\<close>

text \<open>
  The detectors receive whatever \<^verbatim>\<open>json.load\<close> returns. A dict is an association list read
  with \<open>map_of\<close> (the first binding of a key is the dict's value for it). Numbers are
  integers: the detectors only test a number for truth and format it, and never compute
  with it. A string is its UTF-8 byte sequence, whose lexicographic order is Python's
  code-point order.
\<close>

datatype json =
    JNull
  | JBool bool
  | JNum int
  | JStr string
  | JArr "json list"
  | JObj "(string \<times> json) list"

datatype py_error = TypeError | AttributeError | KeyError | ValueError | OSError

text \<open>Sequencing of steps that may raise: the first exception ends the block.\<close>

definition luego :: "py_error + 'a \<Rightarrow> ('a \<Rightarrow> py_error + 'b) \<Rightarrow> py_error + 'b" where
  "luego m f = (case m of Inl e \<Rightarrow> Inl e | Inr x \<Rightarrow> f x)"

text \<open>Truth value of a JSON value, as \<^verbatim>\<open>if v:\<close> tests it.\<close>

fun py_bool :: "json \<Rightarrow> bool" where
  "py_bool JNull = False"
| "py_bool (JBool b) = b"
| "py_bool (JNum n) = (n \<noteq> 0)"
| "py_bool (JStr s) = (s \<noteq> [])"
| "py_bool (JArr xs) = (xs \<noteq> [])"
| "py_bool (JObj kvs) = (kvs \<noteq> [])"

text \<open>\<^verbatim>\<open>n in h\<close> on two strings: \<open>n\<close> occurs in \<open>h\<close> as a contiguous piece.\<close>

fun subcadena :: "string \<Rightarrow> string \<Rightarrow> bool" where
  "subcadena n [] = (n = [])"
| "subcadena n (c # cs) = (take (length n) (c # cs) = n \<or> subcadena n cs)"

text \<open>
  \<^verbatim>\<open>k in v\<close> for a string \<open>k\<close>: key membership on a dict, element membership on a list,
  substring test on a string, \<^verbatim>\<open>TypeError\<close> on \<^verbatim>\<open>None\<close>, booleans and numbers.
\<close>

fun py_in :: "string \<Rightarrow> json \<Rightarrow> py_error + bool" where
  "py_in k (JObj kvs) = Inr (map_of kvs k \<noteq> None)"
| "py_in k (JArr xs) = Inr (JStr k \<in> set xs)"
| "py_in k (JStr s) = Inr (subcadena k s)"
| "py_in k JNull = Inl TypeError"
| "py_in k (JBool b) = Inl TypeError"
| "py_in k (JNum n) = Inl TypeError"

text \<open>\<^verbatim>\<open>v[k]\<close> for a string \<open>k\<close>: only a dict can be indexed by a string.\<close>

fun py_getitem :: "json \<Rightarrow> string \<Rightarrow> py_error + json" where
  "py_getitem (JObj kvs) k = (case map_of kvs k of None \<Rightarrow> Inl KeyError | Some v \<Rightarrow> Inr v)"
| "py_getitem JNull k = Inl TypeError"
| "py_getitem (JBool b) k = Inl TypeError"
| "py_getitem (JNum n) k = Inl TypeError"
| "py_getitem (JStr s) k = Inl TypeError"
| "py_getitem (JArr xs) k = Inl TypeError"

text \<open>\<^verbatim>\<open>v.get(k, d)\<close>: only a dict has the method.\<close>

fun py_get :: "json \<Rightarrow> string \<Rightarrow> json \<Rightarrow> py_error + json" where
  "py_get (JObj kvs) k d = Inr (case map_of kvs k of None \<Rightarrow> d | Some v \<Rightarrow> v)"
| "py_get JNull k d = Inl AttributeError"
| "py_get (JBool b) k d = Inl AttributeError"
| "py_get (JNum n) k d = Inl AttributeError"
| "py_get (JStr s) k d = Inl AttributeError"
| "py_get (JArr xs) k d = Inl AttributeError"

text \<open>
  A value inside an f-string: a string is inserted as it is; what \<^verbatim>\<open>str\<close> gives for any
  other value is the parameter \<open>str_otro\<close>.
\<close>

fun formatear :: "(json \<Rightarrow> string) \<Rightarrow> json \<Rightarrow> string" where
  "formatear str_otro (JStr s) = s"
| "formatear str_otro v = str_otro v"

text \<open>
  The navigation shared by the three extractors
  (\<^verbatim>\<open>detector_duplicados.py\<close> 44-45, \<^verbatim>\<open>detector_duplicados_1_v2.py\<close> 34-35,
  \<^verbatim>\<open>detector_duplicados_s1_v3.py\<close> 114-115): \<open>Inr None\<close> when the condition of the
  \<^verbatim>\<open>if\<close> is false, \<open>Inr (Some datos_generales)\<close> when the body is entered.
\<close>

definition navegar :: "json \<Rightarrow> py_error + json option" where
  "navegar registro =
     luego (py_in ''declaracion'' registro) (\<lambda>tiene_declaracion.
     if \<not> tiene_declaracion then Inr None else
     luego (py_getitem registro ''declaracion'') (\<lambda>declaracion.
     luego (py_in ''situacionPatrimonial'' declaracion) (\<lambda>tiene_situacion.
     if \<not> tiene_situacion then Inr None else
     luego (py_getitem registro ''declaracion'') (\<lambda>declaracion'.
     luego (py_getitem declaracion' ''situacionPatrimonial'') (\<lambda>situacion.
     luego (py_get situacion ''datosGenerales'' (JObj [])) (\<lambda>datos_generales.
     Inr (Some datos_generales)))))))"

section \<open>Whole-tree detector (\<^verbatim>\<open>detector_duplicados.py\<close>)\<close>

record ocurrencia =
  o_id :: json
  o_nombre :: json
  o_primerApellido :: json
  o_segundoApellido :: json
  o_institucion :: json
  o_fechaActualizacion :: json
  o_rutaArchivo :: string

text \<open>\<^verbatim>\<open>f"{nombre}|{primer_apellido}|{segundo_apellido}"\<close>\<close>

definition persona_key :: "(json \<Rightarrow> string) \<Rightarrow> json \<Rightarrow> json \<Rightarrow> json \<Rightarrow> string" where
  "persona_key str_otro nombre primer_apellido segundo_apellido =
     formatear str_otro nombre @ ''|'' @ formatear str_otro primer_apellido @ ''|''
       @ formatear str_otro segundo_apellido"

definition sin_institucion :: string where
  "sin_institucion = ''Sin instituci'' @ [CHR 0xC3, CHR 0xB3] @ ''n''"

text \<open>
  The body of the inner \<^verbatim>\<open>try\<close> of \<^verbatim>\<open>procesar_archivo_json\<close> (lines 43-72) for one
  element: \<open>Inl\<close> when it raises, \<open>Inr None\<close> when it ends without appending, and
  \<open>Inr (Some (persona_key, ocurrencia))\<close> when it appends; the append is its last step.
\<close>

definition procesar_registro ::
  "(json \<Rightarrow> string) \<Rightarrow> string \<Rightarrow> json \<Rightarrow> py_error + (string \<times> ocurrencia) option" where
  "procesar_registro str_otro ruta_archivo registro =
     luego (navegar registro) (\<lambda>entrada.
     case entrada of None \<Rightarrow> Inr None | Some datos_generales \<Rightarrow>
     if \<not> py_bool datos_generales then Inr None else
     luego (py_get datos_generales ''nombre'' (JStr [])) (\<lambda>nombre.
     luego (py_get datos_generales ''primerApellido'' (JStr [])) (\<lambda>primer_apellido.
     luego (py_get datos_generales ''segundoApellido'' (JStr [])) (\<lambda>segundo_apellido.
     if \<not> (py_bool nombre \<and> py_bool primer_apellido) then Inr None else
     luego (py_get registro ''id'' (JStr ''Sin ID'')) (\<lambda>id_registro.
     luego (py_get registro ''metadata'' (JObj [])) (\<lambda>metadata.
     luego (py_get metadata ''institucion'' (JStr sin_institucion)) (\<lambda>institucion.
     luego (py_get metadata ''actualizacion'' (JStr ''Sin fecha'')) (\<lambda>fecha_actualizacion.
     Inr (Some (persona_key str_otro nombre primer_apellido segundo_apellido,
       \<lparr>o_id = id_registro, o_nombre = nombre, o_primerApellido = primer_apellido,
        o_segundoApellido = segundo_apellido, o_institucion = institucion,
        o_fechaActualizacion = fecha_actualizacion,
        o_rutaArchivo = ruta_archivo\<rparr>))))))))))"

text \<open>
  \<^verbatim>\<open>datos_personas\<close> is a \<^verbatim>\<open>defaultdict(list)\<close>: keys in the order of their first
  insertion, each with the list of its occurrences in the order they were appended.
\<close>

type_synonym datos_personas = "(string \<times> ocurrencia list) list"

fun agregar :: "string \<Rightarrow> ocurrencia \<Rightarrow> datos_personas \<Rightarrow> datos_personas" where
  "agregar k v [] = [(k, [v])]"
| "agregar k v ((k', vs) # resto) =
     (if k = k' then (k', vs @ [v]) # resto else (k', vs) # agregar k v resto)"

text \<open>One turn of the loop over \<^verbatim>\<open>contenido\<close>: an exception of the body is logged and dropped.\<close>

definition procesar_elemento ::
  "(json \<Rightarrow> string) \<Rightarrow> string \<Rightarrow> datos_personas \<Rightarrow> json \<Rightarrow> datos_personas" where
  "procesar_elemento str_otro ruta_archivo datos registro =
     (case procesar_registro str_otro ruta_archivo registro of
        Inl e \<Rightarrow> datos
      | Inr None \<Rightarrow> datos
      | Inr (Some (k, v)) \<Rightarrow> agregar k v datos)"

text \<open>
  What \<^verbatim>\<open>for registro in contenido\<close> iterates over, after a dict has been wrapped in a
  list: the elements of a list, the characters of a string; anything else raises.
\<close>

fun elementos :: "json \<Rightarrow> py_error + json list" where
  "elementos (JObj kvs) = Inr [JObj kvs]"
| "elementos (JArr xs) = Inr xs"
| "elementos (JStr s) = Inr (map (\<lambda>c. JStr [c]) s)"
| "elementos JNull = Inl TypeError"
| "elementos (JBool b) = Inl TypeError"
| "elementos (JNum n) = Inl TypeError"

text \<open>
  \<^verbatim>\<open>procesar_archivo_json\<close>: \<open>cargado\<close> is the outcome of opening and parsing the file.
  The outer handler logs any exception and returns, leaving what was accumulated.
\<close>

definition procesar_archivo_json ::
  "(json \<Rightarrow> string) \<Rightarrow> string \<Rightarrow> py_error + json \<Rightarrow> datos_personas \<Rightarrow> datos_personas" where
  "procesar_archivo_json str_otro ruta_archivo cargado datos =
     (case luego cargado elementos of
        Inl e \<Rightarrow> datos
      | Inr registros \<Rightarrow> foldl (procesar_elemento str_otro ruta_archivo) datos registros)"

text \<open>
  \<^verbatim>\<open>explorar_directorios\<close>: the \<^verbatim>\<open>.json\<close> files of the tree, in the order of the walk, each with
  the outcome of loading it.
\<close>

definition explorar_directorios ::
  "(json \<Rightarrow> string) \<Rightarrow> (string \<times> (py_error + json)) list \<Rightarrow> datos_personas" where
  "explorar_directorios str_otro archivos =
     foldl (\<lambda>datos (ruta, cargado). procesar_archivo_json str_otro ruta cargado datos) [] archivos"

text \<open>One row of the report sheet (\<^verbatim>\<open>generar_informe_duplicados\<close>, lines 123-133).\<close>

record fila_informe =
  f_nombre :: string
  f_primerApellido :: string
  f_segundoApellido :: string
  f_cantidadOcurrencias :: nat
  f_ocurrenciaNumero :: nat
  f_id :: json
  f_institucion :: json
  f_fechaActualizacion :: json
  f_rutaArchivo :: string

text \<open>\<^verbatim>\<open>s.split(sep)\<close> for a one-character separator; \<open>acc\<close> is the piece being read.\<close>

fun partir :: "char \<Rightarrow> string \<Rightarrow> string \<Rightarrow> string list" where
  "partir sep acc [] = [acc]"
| "partir sep acc (c # cs) =
     (if c = sep then acc # partir sep [] cs else partir sep (acc @ [c]) cs)"

definition split_barra :: "string \<Rightarrow> string list" where
  "split_barra s = partir (CHR ''|'') [] s"

text \<open>\<^verbatim>\<open>a, b, c = partes\<close>: any number of parts other than three raises \<^verbatim>\<open>ValueError\<close>.\<close>

fun desempaquetar :: "string list \<Rightarrow> py_error + (string \<times> string \<times> string)" where
  "desempaquetar [a, b, c] = Inr (a, b, c)"
| "desempaquetar partes = Inl ValueError"

text \<open>The rows of one group: \<^verbatim>\<open>enumerate(ocurrencias, 1)\<close> numbers them from 1.\<close>

definition filas_de_grupo ::
  "string \<Rightarrow> string \<Rightarrow> string \<Rightarrow> ocurrencia list \<Rightarrow> fila_informe list" where
  "filas_de_grupo nombre primer_apellido segundo_apellido ocurrencias =
     map (\<lambda>(i, ocurrencia).
            \<lparr>f_nombre = nombre, f_primerApellido = primer_apellido,
             f_segundoApellido = segundo_apellido,
             f_cantidadOcurrencias = length ocurrencias, f_ocurrenciaNumero = i,
             f_id = o_id ocurrencia, f_institucion = o_institucion ocurrencia,
             f_fechaActualizacion = o_fechaActualizacion ocurrencia,
             f_rutaArchivo = o_rutaArchivo ocurrencia\<rparr>)
         (zip [1 ..< Suc (length ocurrencias)] ocurrencias)"

text \<open>
  The loop over \<^verbatim>\<open>duplicados.items()\<close> (lines 116-133); \<open>registros\<close> is the list built so
  far. The exception of a key that does not split in three leaves the loop.
\<close>

fun preparar_registros ::
  "fila_informe list \<Rightarrow> datos_personas \<Rightarrow> py_error + fila_informe list" where
  "preparar_registros registros [] = Inr registros"
| "preparar_registros registros ((clave, ocurrencias) # resto) =
     (case desempaquetar (split_barra clave) of
        Inl e \<Rightarrow> Inl e
      | Inr (nombre, primer_apellido, segundo_apellido) \<Rightarrow>
          preparar_registros
            (registros @ filas_de_grupo nombre primer_apellido segundo_apellido ocurrencias)
            resto)"

text \<open>
  The three ways \<^verbatim>\<open>generar_informe_duplicados\<close> ends: no duplicates (logged as information,
  returns \<^verbatim>\<open>False\<close>), an exception caught by its handler (logged as an error, returns
  \<^verbatim>\<open>False\<close>), or the sheet written with these rows (returns \<^verbatim>\<open>True\<close>).
\<close>

datatype informe = SinDuplicados | Fallido py_error | Generado "fila_informe list"

fun retorno :: "informe \<Rightarrow> bool" where
  "retorno SinDuplicados = False"
| "retorno (Fallido e) = False"
| "retorno (Generado registros) = True"

fun filas_escritas :: "informe \<Rightarrow> fila_informe list" where
  "filas_escritas (Generado registros) = registros"
| "filas_escritas SinDuplicados = []"
| "filas_escritas (Fallido e) = []"

definition duplicados_de :: "datos_personas \<Rightarrow> datos_personas" where
  "duplicados_de datos = filter (\<lambda>(k, v). length v > 1) datos"

text \<open>
  \<open>escribir\<close> stands for the creation of the destination directory and the spreadsheet
  writer, which may raise.
\<close>

definition generar_informe_duplicados ::
  "(fila_informe list \<Rightarrow> py_error + unit) \<Rightarrow> datos_personas \<Rightarrow> informe" where
  "generar_informe_duplicados escribir datos =
     (let duplicados = duplicados_de datos in
      if duplicados = [] then SinDuplicados
      else case preparar_registros [] duplicados of
             Inl e \<Rightarrow> Fallido e
           | Inr registros \<Rightarrow>
               (case escribir registros of
                  Inl e \<Rightarrow> Fallido e
                | Inr u \<Rightarrow> Generado registros))"

section \<open>Partitioned detectors (\<^verbatim>\<open>detector_duplicados_1_v2.py\<close>, \<^verbatim>\<open>detector_duplicados_s1_v3.py\<close>)\<close>

text \<open>
  \<^verbatim>\<open>extraer_datos_persona\<close>, \<^verbatim>\<open>leer_archivos_json_directorio\<close> and \<^verbatim>\<open>analizar_duplicados\<close>
  have the same text in both files (lines 31-130 of the first, 111-210 of the second).
\<close>

record datos_persona =
  id_registro :: json
  nombre :: json
  primerApellido :: json
  segundoApellido :: json
  nombreCompleto :: string
  institucion :: json
  fechaActualizacion :: json
  tipoDeclaracion :: json

record registro_persona = datos_persona +
  rutaArchivo :: string

record fila_duplicado = registro_persona +
  cantidadOcurrencias :: "nat option"

text \<open>\<^verbatim>\<open>f"{nombre} {primer_apellido} {segundo_apellido}"\<close>\<close>

definition nombre_completo :: "(json \<Rightarrow> string) \<Rightarrow> json \<Rightarrow> json \<Rightarrow> json \<Rightarrow> string" where
  "nombre_completo str_otro n p s =
     formatear str_otro n @ '' '' @ formatear str_otro p @ '' '' @ formatear str_otro s"

text \<open>The body of the \<^verbatim>\<open>try\<close> of \<^verbatim>\<open>extraer_datos_persona\<close>; \<open>Inr None\<close> is falling through.\<close>

definition extraer_cuerpo :: "(json \<Rightarrow> string) \<Rightarrow> json \<Rightarrow> py_error + datos_persona option" where
  "extraer_cuerpo str_otro registro =
     luego (navegar registro) (\<lambda>entrada.
     case entrada of None \<Rightarrow> Inr None | Some datos_generales \<Rightarrow>
     if \<not> py_bool datos_generales then Inr None else
     luego (py_get datos_generales ''nombre'' (JStr [])) (\<lambda>n.
     luego (py_get datos_generales ''primerApellido'' (JStr [])) (\<lambda>primer_apellido.
     luego (py_get datos_generales ''segundoApellido'' (JStr [])) (\<lambda>segundo_apellido.
     luego (py_get registro ''id'' (JStr ''Sin ID'')) (\<lambda>id_reg.
     luego (py_get registro ''metadata'' (JObj [])) (\<lambda>metadata.
     luego (py_get metadata ''institucion'' (JStr sin_institucion)) (\<lambda>inst.
     luego (py_get metadata ''actualizacion'' (JStr ''Sin fecha'')) (\<lambda>fecha_actualizacion.
     luego (py_get metadata ''tipo'' (JStr ''Sin tipo'')) (\<lambda>tipo_declaracion.
     Inr (Some
       \<lparr>id_registro = id_reg, nombre = n, primerApellido = primer_apellido,
        segundoApellido = segundo_apellido,
        nombreCompleto = nombre_completo str_otro n primer_apellido segundo_apellido,
        institucion = inst, fechaActualizacion = fecha_actualizacion,
        tipoDeclaracion = tipo_declaracion\<rparr>))))))))))"

text \<open>\<^verbatim>\<open>extraer_datos_persona\<close>: the handler logs the exception and \<^verbatim>\<open>None\<close> is returned.\<close>

definition extraer_datos_persona :: "(json \<Rightarrow> string) \<Rightarrow> json \<Rightarrow> datos_persona option" where
  "extraer_datos_persona str_otro registro =
     (case extraer_cuerpo str_otro registro of Inl e \<Rightarrow> None | Inr resultado \<Rightarrow> resultado)"

text \<open>\<^verbatim>\<open>datos_persona['rutaArchivo'] = ruta_completa\<close>\<close>

definition con_ruta :: "string \<Rightarrow> datos_persona \<Rightarrow> registro_persona" where
  "con_ruta ruta_completa d =
     \<lparr>id_registro = id_registro d, nombre = nombre d, primerApellido = primerApellido d,
      segundoApellido = segundoApellido d, nombreCompleto = nombreCompleto d,
      institucion = institucion d, fechaActualizacion = fechaActualizacion d,
      tipoDeclaracion = tipoDeclaracion d, rutaArchivo = ruta_completa\<rparr>"

text \<open>
  One turn of the loop over the files of a directory (lines 80-102): the state is
  \<^verbatim>\<open>registros\<close> and \<^verbatim>\<open>archivos_procesados\<close>. A dict returned by the extractor is never
  empty, so \<^verbatim>\<open>if datos_persona:\<close> holds exactly when a dict was returned.
\<close>

definition leer_archivo ::
  "(json \<Rightarrow> string) \<Rightarrow> registro_persona list \<times> nat \<Rightarrow> string \<times> (py_error + json)
     \<Rightarrow> registro_persona list \<times> nat" where
  "leer_archivo str_otro estado archivo =
     (case estado of (registros, archivos_procesados) \<Rightarrow>
      case archivo of (ruta_completa, cargado) \<Rightarrow>
      case luego cargado elementos of
        Inl e \<Rightarrow> (registros, archivos_procesados)
      | Inr contenido \<Rightarrow>
          (registros @ map (con_ruta ruta_completa)
                         (List.map_filter (extraer_datos_persona str_otro) contenido),
           archivos_procesados + 1))"

text \<open>
  \<^verbatim>\<open>leer_archivos_json_directorio\<close>: \<open>listado\<close> is the outcome of listing the directory,
  already restricted to its \<^verbatim>\<open>.json\<close> files, each with the outcome of loading it.
\<close>

definition leer_archivos_json_directorio ::
  "(json \<Rightarrow> string) \<Rightarrow> py_error + (string \<times> (py_error + json)) list
     \<Rightarrow> registro_persona list \<times> nat" where
  "leer_archivos_json_directorio str_otro listado =
     (case listado of
        Inl e \<Rightarrow> ([], 0)
      | Inr archivos_json \<Rightarrow>
          if archivos_json = [] then ([], 0)
          else foldl (leer_archivo str_otro) ([], 0) archivos_json)"

subsection \<open>\<^verbatim>\<open>analizar_duplicados\<close>\<close>

text \<open>\<^verbatim>\<open>df.duplicated(['nombreCompleto'], keep=False)\<close>: the value occurs more than once.\<close>

definition duplicated :: "registro_persona list \<Rightarrow> registro_persona \<Rightarrow> bool" where
  "duplicated df r = (count_list (map nombreCompleto df) (nombreCompleto r) > 1)"

text \<open>
  \<^verbatim>\<open>df['nombreCompleto'].value_counts().reset_index()\<close>: one line per distinct value, with
  the number of its occurrences. The table is only read by key, in the merge.
\<close>

definition value_counts :: "string list \<Rightarrow> (string \<times> nat) list" where
  "value_counts nombres = map (\<lambda>n. (n, count_list nombres n)) (remdups nombres)"

text \<open>
  \<^verbatim>\<open>duplicados.merge(conteo, on='nombreCompleto', how='left')\<close>: the rows of the left frame
  in their order, each with the count of its key; a key absent from the table would
  give a missing value.
\<close>

definition con_conteo :: "(string \<times> nat) list \<Rightarrow> registro_persona \<Rightarrow> fila_duplicado" where
  "con_conteo conteo r =
     \<lparr>id_registro = id_registro r, nombre = nombre r, primerApellido = primerApellido r,
      segundoApellido = segundoApellido r, nombreCompleto = nombreCompleto r,
      institucion = institucion r, fechaActualizacion = fechaActualizacion r,
      tipoDeclaracion = tipoDeclaracion r, rutaArchivo = rutaArchivo r,
      cantidadOcurrencias = map_of conteo (nombreCompleto r)\<rparr>"

text \<open>
  \<^verbatim>\<open>sort_values(by=['cantidadOcurrencias', 'nombreCompleto'], ascending=[False, True])\<close>:
  the sort key is the count, larger first and a missing value last, then the name.
  pandas sorts on several columns with a stable sort, as \<open>sort_key\<close> is.
\<close>

definition clave_orden :: "fila_duplicado \<Rightarrow> (nat \<times> int) \<times> string" where
  "clave_orden f =
     ((case cantidadOcurrencias f of None \<Rightarrow> (1, 0) | Some c \<Rightarrow> (0, - int c)),
      nombreCompleto f)"

definition analizar_duplicados :: "registro_persona list \<Rightarrow> fila_duplicado list \<times> nat" where
  "analizar_duplicados df =
     (if df = [] then ([], 0)
      else let duplicados = filter (duplicated df) df in
        if duplicados = [] then ([], 0)
        else let conteo = value_counts (map nombreCompleto df);
                 unidos = map (con_conteo conteo) duplicados;
                 ordenados = sort_key clave_orden unidos
             in (ordenados, length (remdups (map nombreCompleto ordenados))))"

section \<open>The expected shape of an element\<close>

text \<open>\<^verbatim>\<open>d.get(k, v)\<close> on a dict.\<close>

definition campo :: "(string \<times> json) list \<Rightarrow> string \<Rightarrow> json \<Rightarrow> json" where
  "campo kvs k d = (case map_of kvs k of None \<Rightarrow> d | Some v \<Rightarrow> v)"

text \<open>
  The object found under declaracion, situacionPatrimonial, datosGenerales, when the
  element and every step of the path is an object.
\<close>

definition datos_generales_de :: "json \<Rightarrow> (string \<times> json) list option" where
  "datos_generales_de registro =
     (case registro of
        JObj r \<Rightarrow>
          (case map_of r ''declaracion'' of
             Some (JObj d) \<Rightarrow>
               (case map_of d ''situacionPatrimonial'' of
                  Some (JObj sp) \<Rightarrow>
                    (case map_of sp ''datosGenerales'' of
                       Some (JObj dg) \<Rightarrow> Some dg
                     | _ \<Rightarrow> None)
                | _ \<Rightarrow> None)
           | _ \<Rightarrow> None)
      | _ \<Rightarrow> None)"

text \<open>The metadata of an element: absent counts as empty; present, it has to be an object.\<close>

definition metadata_de :: "json \<Rightarrow> (string \<times> json) list option" where
  "metadata_de registro =
     (case registro of
        JObj r \<Rightarrow>
          (case map_of r ''metadata'' of
             None \<Rightarrow> Some []
           | Some (JObj m) \<Rightarrow> Some m
           | Some _ \<Rightarrow> None)
      | _ \<Rightarrow> None)"

text \<open>
  An element has the expected shape when the path leads to a non-empty object and its
  metadata, if any, is an object. Any other element is malformed.
\<close>

definition forma_esperada :: "json \<Rightarrow> bool" where
  "forma_esperada registro =
     (case datos_generales_de registro of
        None \<Rightarrow> False
      | Some dg \<Rightarrow> dg \<noteq> [] \<and> metadata_de registro \<noteq> None)"

text \<open>The whole-tree extractor also asks for a name and a first surname.\<close>

definition con_nombre :: "json \<Rightarrow> bool" where
  "con_nombre registro =
     (case datos_generales_de registro of
        None \<Rightarrow> False
      | Some dg \<Rightarrow> py_bool (campo dg ''nombre'' (JStr []))
                    \<and> py_bool (campo dg ''primerApellido'' (JStr [])))"

text \<open>
  An element with the expected nesting and no metadata, for the examples: its id and its
  datosGenerales.
\<close>

definition elemento_de :: "string \<Rightarrow> (string \<times> json) list \<Rightarrow> json" where
  "elemento_de i dg =
     JObj [(''id'', JStr i),
           (''declaracion'', JObj [(''situacionPatrimonial'', JObj [(''datosGenerales'', JObj dg)])])]"

definition ejemplo_ana :: json where
  "ejemplo_ana = elemento_de ''1''
     [(''nombre'', JStr ''Ana''), (''primerApellido'', JStr ''Lopez''),
      (''segundoApellido'', JStr ''Garcia'')]"

definition ejemplo_bob :: json where
  "ejemplo_bob = elemento_de ''2'' [(''nombre'', JStr ''Bob''), (''primerApellido'', JStr ''Diaz'')]"

definition ejemplo_malformado :: json where
  "ejemplo_malformado = JObj [(''declaracion'', JStr ''situacionPatrimonial'')]"

section \<open>Auxiliary notions for the report\<close>

text \<open>\<^verbatim>\<open>sep.join(parts)\<close>, the inverse of the split.\<close>

fun unir :: "char \<Rightarrow> string list \<Rightarrow> string" where
  "unir sep [] = []"
| "unir sep [x] = x"
| "unir sep (x # y # ys) = x @ [sep] @ unir sep (y # ys)"

text \<open>The rows the loop appends for one entry of \<^verbatim>\<open>duplicados\<close> whose key splits in three.\<close>

definition filas_de_clave :: "string \<Rightarrow> ocurrencia list \<Rightarrow> fila_informe list" where
  "filas_de_clave clave ocurrencias =
     (case split_barra clave of
        [n, p, s] \<Rightarrow> filas_de_grupo n p s ocurrencias
      | _ \<Rightarrow> [])"

text \<open>The key under which \<^verbatim>\<open>procesar_archivo_json\<close> files an occurrence.\<close>

definition clave_de :: "(json \<Rightarrow> string) \<Rightarrow> ocurrencia \<Rightarrow> string" where
  "clave_de str_otro oc =
     persona_key str_otro (o_nombre oc) (o_primerApellido oc) (o_segundoApellido oc)"

text \<open>
  What holds of every \<^verbatim>\<open>datos_personas\<close> the walk builds: a key occurs once, and every
  occurrence is filed under the key made of its own three names.
\<close>

definition acumulado :: "(json \<Rightarrow> string) \<Rightarrow> datos_personas \<Rightarrow> bool" where
  "acumulado str_otro datos =
     (distinct (map fst datos)
      \<and> (\<forall>(k, ocurrencias) \<in> set datos. \<forall>oc \<in> set ocurrencias. k = clave_de str_otro oc))"

text \<open>The key a report row belongs to: its three name columns joined by the separator.\<close>

definition clave_fila :: "fila_informe \<Rightarrow> string" where
  "clave_fila f = f_nombre f @ ''|'' @ f_primerApellido f @ ''|'' @ f_segundoApellido f"

text \<open>Example data: two files, a person found in both, and a record whose name holds the separator.\<close>

definition ejemplo_ana_otra :: json where
  "ejemplo_ana_otra = elemento_de ''9''
     [(''nombre'', JStr ''Ana''), (''primerApellido'', JStr ''Lopez''),
      (''segundoApellido'', JStr ''Garcia'')]"

definition ejemplo_archivos :: "(string \<times> (py_error + json)) list" where
  "ejemplo_archivos =
     [(''a.json'', Inr (JArr [ejemplo_ana, ejemplo_bob])), (''b.json'', Inr ejemplo_ana_otra)]"

definition ejemplo_barra :: json where
  "ejemplo_barra = elemento_de ''3'' [(''nombre'', JStr ''Ana|Eva''), (''primerApellido'', JStr ''Paz'')]"

definition oc_ejemplo :: "string \<Rightarrow> string \<Rightarrow> string \<Rightarrow> string \<Rightarrow> string \<Rightarrow> ocurrencia" where
  "oc_ejemplo i n p s ruta =
     \<lparr>o_id = JStr i, o_nombre = JStr n, o_primerApellido = JStr p, o_segundoApellido = JStr s,
      o_institucion = JStr sin_institucion, o_fechaActualizacion = JStr ''Sin fecha'',
      o_rutaArchivo = ruta\<rparr>"

section \<open>Auxiliary notions for the analysis\<close>

text \<open>The frame after the merge and before the sort, in \<^verbatim>\<open>analizar_duplicados\<close>.\<close>

definition unidos :: "registro_persona list \<Rightarrow> fila_duplicado list" where
  "unidos df = map (con_conteo (value_counts (map nombreCompleto df))) (filter (duplicated df) df)"

text \<open>
  Row \<open>a\<close> may stand before row \<open>b\<close>: both carry a count, and \<open>a\<close> has the larger count or,
  with equal counts, a full name that is not greater.
\<close>

definition antes :: "fila_duplicado \<Rightarrow> fila_duplicado \<Rightarrow> bool" where
  "antes a b =
     (case cantidadOcurrencias a of
        None \<Rightarrow> False
      | Some ca \<Rightarrow>
          (case cantidadOcurrencias b of
             None \<Rightarrow> False
           | Some cb \<Rightarrow> cb < ca \<or> (cb = ca \<and> nombreCompleto a \<le> nombreCompleto b)))"

text \<open>The two columns the rows are sorted by.\<close>

definition par_orden :: "fila_duplicado \<Rightarrow> nat option \<times> string" where
  "par_orden f = (cantidadOcurrencias f, nombreCompleto f)"

text \<open>The Identity Key of the specification: the three name fields as they were read.\<close>

definition identidad :: "'a datos_persona_scheme \<Rightarrow> json \<times> json \<times> json" where
  "identidad r = (nombre r, primerApellido r, segundoApellido r)"

definition identidad_oc :: "ocurrencia \<Rightarrow> json \<times> json \<times> json" where
  "identidad_oc oc = (o_nombre oc, o_primerApellido oc, o_segundoApellido oc)"

text \<open>Example records and batches of the partitioned detectors.\<close>

definition persona_ejemplo ::
  "string \<Rightarrow> string \<Rightarrow> string \<Rightarrow> string \<Rightarrow> string \<Rightarrow> registro_persona" where
  "persona_ejemplo i n p s ruta =
     \<lparr>id_registro = JStr i, nombre = JStr n, primerApellido = JStr p, segundoApellido = JStr s,
      nombreCompleto = n @ '' '' @ p @ '' '' @ s,
      institucion = JStr sin_institucion, fechaActualizacion = JStr ''Sin fecha'',
      tipoDeclaracion = JStr ''Sin tipo'', rutaArchivo = ruta\<rparr>"

definition lote_ejemplo :: "registro_persona list" where
  "lote_ejemplo =
     [persona_ejemplo ''2'' ''Bob'' ''Diaz'' [] ''a.json'',
      persona_ejemplo ''1'' ''Ana'' ''Lopez'' ''Garcia'' ''a.json'',
      persona_ejemplo ''3'' ''Bob'' ''Diaz'' [] ''b.json'',
      persona_ejemplo ''9'' ''Ana'' ''Lopez'' ''Garcia'' ''b.json'']"

definition lote_ejemplo_permutado :: "registro_persona list" where
  "lote_ejemplo_permutado =
     [persona_ejemplo ''9'' ''Ana'' ''Lopez'' ''Garcia'' ''b.json'',
      persona_ejemplo ''3'' ''Bob'' ''Diaz'' [] ''b.json'',
      persona_ejemplo ''1'' ''Ana'' ''Lopez'' ''Garcia'' ''a.json'',
      persona_ejemplo ''2'' ''Bob'' ''Diaz'' [] ''a.json'']"

definition lote_cruz :: "registro_persona list" where
  "lote_cruz =
     [persona_ejemplo ''6'' ''Juan De'' ''La Cruz'' [] ''a.json'',
      persona_ejemplo ''7'' ''Juan'' ''De La Cruz'' [] ''a.json'']"

definition archivo_cruz :: "(string \<times> (py_error + json)) list" where
  "archivo_cruz =
     [(''a.json'', Inr (JArr
        [elemento_de ''6'' [(''nombre'', JStr ''Juan De''), (''primerApellido'', JStr ''La Cruz'')],
         elemento_de ''7'' [(''nombre'', JStr ''Juan''), (''primerApellido'', JStr ''De La Cruz'')]]))]"

definition archivo_barras :: "(string \<times> (py_error + json)) list" where
  "archivo_barras =
     [(''a.json'', Inr (JArr
        [elemento_de ''4'' [(''nombre'', JStr ''Ana|Eva''), (''primerApellido'', JStr ''Paz'')],
         elemento_de ''5'' [(''nombre'', JStr ''Ana''), (''primerApellido'', JStr ''Eva|Paz'')]]))]"

definition archivo_sin_orden :: "(string \<times> (py_error + json)) list" where
  "archivo_sin_orden =
     [(''a.json'', Inr (JArr [ejemplo_bob, ejemplo_bob, ejemplo_ana, ejemplo_ana, ejemplo_ana]))]"

section \<open>Extraction\<close>

lemma navegar_objeto:
  assumes "map_of r ''declaracion'' = Some (JObj d)"
    and "map_of d ''situacionPatrimonial'' = Some (JObj sp)"
  shows "navegar (JObj r) =
    Inr (Some (case map_of sp ''datosGenerales'' of None \<Rightarrow> JObj [] | Some v \<Rightarrow> v))"
  using assms by (simp add: navegar_def luego_def)

lemma navegar_forma:
  "datos_generales_de registro = Some dg \<Longrightarrow> navegar registro = Inr (Some (JObj dg))"
  by (auto simp: datos_generales_de_def navegar_def luego_def split: json.splits option.splits)

lemma py_get_obj: "py_get (JObj kvs) k d = Inr (campo kvs k d)"
  by (simp add: campo_def)

lemma extraer_forma:
  assumes "datos_generales_de registro = Some dg" "dg \<noteq> []" "metadata_de registro = Some m"
  shows "extraer_cuerpo str_otro registro = Inr (Some
       \<lparr>id_registro = (case registro of JObj r \<Rightarrow> campo r ''id'' (JStr ''Sin ID'') | _ \<Rightarrow> JNull),
        nombre = campo dg ''nombre'' (JStr []),
        primerApellido = campo dg ''primerApellido'' (JStr []),
        segundoApellido = campo dg ''segundoApellido'' (JStr []),
        nombreCompleto = nombre_completo str_otro (campo dg ''nombre'' (JStr []))
           (campo dg ''primerApellido'' (JStr [])) (campo dg ''segundoApellido'' (JStr [])),
        institucion = campo m ''institucion'' (JStr sin_institucion),
        fechaActualizacion = campo m ''actualizacion'' (JStr ''Sin fecha''),
        tipoDeclaracion = campo m ''tipo'' (JStr ''Sin tipo'')\<rparr>)"
proof -
  obtain r where r: "registro = JObj r"
    using assms(1) by (cases registro) (auto simp: datos_generales_de_def)
  have g: "py_get registro ''metadata'' (JObj []) = Inr (JObj m)"
    using assms(3) r by (auto simp: metadata_de_def split: option.splits json.splits)
  show ?thesis
    unfolding extraer_cuerpo_def navegar_forma[OF assms(1)]
    using assms(2) g r by (simp add: luego_def py_get_obj del: py_get.simps)
qed

lemma navegar_malformado:
  "datos_generales_de registro = None \<Longrightarrow>
     (\<exists>e. navegar registro = Inl e) \<or> navegar registro = Inr None
     \<or> (\<exists>v. navegar registro = Inr (Some v) \<and> (\<forall>dg. v \<noteq> JObj dg \<or> dg = []))"
  apply (cases registro)
  apply (auto simp: datos_generales_de_def navegar_def luego_def split: json.splits option.splits)
  done


lemma py_get_no_objeto: "(\<forall>dg. v \<noteq> JObj dg) \<Longrightarrow> py_get v k d = Inl AttributeError"
  by (cases v) auto

lemma metadata_no_objeto:
  assumes "datos_generales_de registro = Some dg" "metadata_de registro = None"
  shows "\<exists>v. py_get registro ''metadata'' (JObj []) = Inr v \<and> (\<forall>m. v \<noteq> JObj m)"
proof -
  obtain r where r: "registro = JObj r"
    using assms(1) by (cases registro) (auto simp: datos_generales_de_def)
  show ?thesis using assms(2) r
    by (auto simp: metadata_de_def split: option.splits json.splits)
qed

lemma registro_objeto:
  "datos_generales_de registro = Some dg \<Longrightarrow> \<exists>r. registro = JObj r"
  by (cases registro) (auto simp: datos_generales_de_def)

lemma luego_Inl: "luego (Inl e) f = Inl e"
  by (simp add: luego_def)

lemma luego_Inr: "luego (Inr x) f = f x"
  by (simp add: luego_def)

lemma extraer_navegar_falla:
  "navegar registro = Inl e \<Longrightarrow> extraer_cuerpo str_otro registro = Inl e"
  by (simp add: extraer_cuerpo_def luego_Inl)

lemma extraer_navegar_nada:
  "navegar registro = Inr None \<Longrightarrow> extraer_cuerpo str_otro registro = Inr None"
  by (simp add: extraer_cuerpo_def luego_Inr)

lemma extraer_datos_falsos:
  "navegar registro = Inr (Some v) \<Longrightarrow> \<not> py_bool v
     \<Longrightarrow> extraer_cuerpo str_otro registro = Inr None"
  by (simp add: extraer_cuerpo_def luego_Inr)

lemma extraer_datos_no_objeto:
  "navegar registro = Inr (Some v) \<Longrightarrow> py_bool v
     \<Longrightarrow> py_get v ''nombre'' (JStr []) = Inl e
     \<Longrightarrow> extraer_cuerpo str_otro registro = Inl e"
  by (simp add: extraer_cuerpo_def luego_Inr luego_Inl)

lemma extraer_metadata_no_objeto:
  "navegar registro = Inr (Some (JObj dg)) \<Longrightarrow> dg \<noteq> []
     \<Longrightarrow> py_get registro ''id'' (JStr ''Sin ID'') = Inr i
     \<Longrightarrow> py_get registro ''metadata'' (JObj []) = Inr v
     \<Longrightarrow> py_get v ''institucion'' (JStr sin_institucion) = Inl e
     \<Longrightarrow> extraer_cuerpo str_otro registro = Inl e"
  by (simp add: extraer_cuerpo_def luego_Inr luego_Inl)

lemma extraer_malformado:
  assumes "\<not> forma_esperada registro"
  shows "extraer_datos_persona str_otro registro = None"
proof -
  have "(\<exists>e. extraer_cuerpo str_otro registro = Inl e)
      \<or> extraer_cuerpo str_otro registro = Inr None"
  proof (cases "datos_generales_de registro")
    case None
    from navegar_malformado[OF None] show ?thesis
    proof (elim disjE exE conjE)
      fix e assume "navegar registro = Inl e"
      then show ?thesis by (blast dest: extraer_navegar_falla)
    next
      assume "navegar registro = Inr None"
      then show ?thesis by (blast dest: extraer_navegar_nada)
    next
      fix v assume v: "navegar registro = Inr (Some v)" "\<forall>dg. v \<noteq> JObj dg \<or> dg = []"
      show ?thesis
      proof (cases "py_bool v")
        case False
        from extraer_datos_falsos[OF v(1) False] show ?thesis by blast
      next
        case True
        have "\<forall>dg. v \<noteq> JObj dg"
        proof (intro allI notI)
          fix dg assume eq: "v = JObj dg"
          with v(2) have "dg = []" by blast
          with True eq show False by simp
        qed
        then have "py_get v ''nombre'' (JStr []) = Inl AttributeError"
          by (rule py_get_no_objeto)
        from extraer_datos_no_objeto[OF v(1) True this] show ?thesis by blast
      qed
    qed
  next
    case (Some dg)
    note nav = navegar_forma[OF Some]
    show ?thesis
    proof (cases "dg = []")
      case True
      then have "\<not> py_bool (JObj dg)" by simp
      from extraer_datos_falsos[OF nav this] show ?thesis by blast
    next
      case False
      with assms Some have "metadata_de registro = None" by (simp add: forma_esperada_def)
      from metadata_no_objeto[OF Some this] obtain v where
        v: "py_get registro ''metadata'' (JObj []) = Inr v" "\<forall>m. v \<noteq> JObj m" by blast
      from registro_objeto[OF Some] obtain r where r: "registro = JObj r" ..
      then have i: "py_get registro ''id'' (JStr ''Sin ID'') = Inr (campo r ''id'' (JStr ''Sin ID''))"
        by (simp add: campo_def)
      have "py_get v ''institucion'' (JStr sin_institucion) = Inl AttributeError"
        using v(2) by (rule py_get_no_objeto)
      from extraer_metadata_no_objeto[OF nav False i v(1) this] show ?thesis by blast
    qed
  qed
  then show ?thesis by (auto simp: extraer_datos_persona_def)
qed

lemma luego_Inr_iff: "luego m f = Inr y \<longleftrightarrow> (\<exists>x. m = Inr x \<and> f x = Inr y)"
  by (cases m) (simp_all add: luego_def)

lemma procesar_emite:
  assumes "procesar_registro str_otro ruta registro = Inr (Some (k, oc))"
  shows "py_bool (o_nombre oc) \<and> py_bool (o_primerApellido oc)
     \<and> k = persona_key str_otro (o_nombre oc) (o_primerApellido oc) (o_segundoApellido oc)
     \<and> o_rutaArchivo oc = ruta"
  using assms
  by (auto simp: procesar_registro_def luego_Inr_iff split: option.splits if_splits)

lemma procesar_forma:
  assumes "datos_generales_de registro = Some dg" "dg \<noteq> []" "metadata_de registro = Some m"
    and "py_bool (campo dg ''nombre'' (JStr []))"
    and "py_bool (campo dg ''primerApellido'' (JStr []))"
  shows "procesar_registro str_otro ruta registro = Inr (Some
      (persona_key str_otro (campo dg ''nombre'' (JStr []))
           (campo dg ''primerApellido'' (JStr [])) (campo dg ''segundoApellido'' (JStr [])),
       \<lparr>o_id = (case registro of JObj r \<Rightarrow> campo r ''id'' (JStr ''Sin ID'') | _ \<Rightarrow> JNull),
        o_nombre = campo dg ''nombre'' (JStr []),
        o_primerApellido = campo dg ''primerApellido'' (JStr []),
        o_segundoApellido = campo dg ''segundoApellido'' (JStr []),
        o_institucion = campo m ''institucion'' (JStr sin_institucion),
        o_fechaActualizacion = campo m ''actualizacion'' (JStr ''Sin fecha''),
        o_rutaArchivo = ruta\<rparr>))"
proof -
  obtain r where r: "registro = JObj r"
    using assms(1) by (cases registro) (auto simp: datos_generales_de_def)
  have g: "py_get registro ''metadata'' (JObj []) = Inr (JObj m)"
    using assms(3) r by (auto simp: metadata_de_def split: option.splits json.splits)
  show ?thesis
    unfolding procesar_registro_def navegar_forma[OF assms(1)]
    using assms(2,4,5) g r by (simp add: luego_def py_get_obj del: py_get.simps)
qed

lemma procesar_sin_nombre:
  assumes "datos_generales_de registro = Some dg"
    and "\<not> (py_bool (campo dg ''nombre'' (JStr [])) \<and> py_bool (campo dg ''primerApellido'' (JStr [])))"
  shows "procesar_registro str_otro ruta registro = Inr None"
  unfolding procesar_registro_def navegar_forma[OF assms(1)]
  using assms(2) by (simp add: luego_def py_get_obj del: py_get.simps)

lemma procesar_navegar_falla:
  "navegar registro = Inl e \<Longrightarrow> procesar_registro str_otro ruta registro = Inl e"
  by (simp add: procesar_registro_def luego_Inl)

lemma procesar_navegar_nada:
  "navegar registro = Inr None \<Longrightarrow> procesar_registro str_otro ruta registro = Inr None"
  by (simp add: procesar_registro_def luego_Inr)

lemma procesar_datos_falsos:
  "navegar registro = Inr (Some v) \<Longrightarrow> \<not> py_bool v
     \<Longrightarrow> procesar_registro str_otro ruta registro = Inr None"
  by (simp add: procesar_registro_def luego_Inr)

lemma procesar_datos_no_objeto:
  "navegar registro = Inr (Some v) \<Longrightarrow> py_bool v
     \<Longrightarrow> py_get v ''nombre'' (JStr []) = Inl e
     \<Longrightarrow> procesar_registro str_otro ruta registro = Inl e"
  by (simp add: procesar_registro_def luego_Inr luego_Inl)

lemma procesar_metadata_no_objeto:
  "navegar registro = Inr (Some (JObj dg)) \<Longrightarrow> dg \<noteq> []
     \<Longrightarrow> py_get registro ''id'' (JStr ''Sin ID'') = Inr i
     \<Longrightarrow> py_get registro ''metadata'' (JObj []) = Inr v
     \<Longrightarrow> py_get v ''institucion'' (JStr sin_institucion) = Inl e
     \<Longrightarrow> procesar_registro str_otro ruta registro = Inl e
       \<or> procesar_registro str_otro ruta registro = Inr None"
  by (simp add: procesar_registro_def luego_Inr luego_Inl)

lemma procesar_malformado:
  assumes "\<not> forma_esperada registro"
  shows "procesar_elemento str_otro ruta datos registro = datos"
proof -
  have "(\<exists>e. procesar_registro str_otro ruta registro = Inl e)
      \<or> procesar_registro str_otro ruta registro = Inr None"
  proof (cases "datos_generales_de registro")
    case None
    from navegar_malformado[OF None] show ?thesis
    proof (elim disjE exE conjE)
      fix e assume "navegar registro = Inl e"
      then show ?thesis by (blast dest: procesar_navegar_falla)
    next
      assume "navegar registro = Inr None"
      then show ?thesis by (blast dest: procesar_navegar_nada)
    next
      fix v assume v: "navegar registro = Inr (Some v)" "\<forall>dg. v \<noteq> JObj dg \<or> dg = []"
      show ?thesis
      proof (cases "py_bool v")
        case False
        from procesar_datos_falsos[OF v(1) False] show ?thesis by blast
      next
        case True
        have "\<forall>dg. v \<noteq> JObj dg"
        proof (intro allI notI)
          fix dg assume eq: "v = JObj dg"
          with v(2) have "dg = []" by blast
          with True eq show False by simp
        qed
        then have "py_get v ''nombre'' (JStr []) = Inl AttributeError"
          by (rule py_get_no_objeto)
        from procesar_datos_no_objeto[OF v(1) True this] show ?thesis by blast
      qed
    qed
  next
    case (Some dg)
    note nav = navegar_forma[OF Some]
    show ?thesis
    proof (cases "dg = []")
      case True
      then have "\<not> py_bool (JObj dg)" by simp
      from procesar_datos_falsos[OF nav this] show ?thesis by blast
    next
      case False
      with assms Some have "metadata_de registro = None" by (simp add: forma_esperada_def)
      from metadata_no_objeto[OF Some this] obtain v where
        v: "py_get registro ''metadata'' (JObj []) = Inr v" "\<forall>m. v \<noteq> JObj m" by blast
      from registro_objeto[OF Some] obtain r where r: "registro = JObj r" ..
      then have i: "py_get registro ''id'' (JStr ''Sin ID'') = Inr (campo r ''id'' (JStr ''Sin ID''))"
        by (simp add: campo_def)
      have "py_get v ''institucion'' (JStr sin_institucion) = Inl AttributeError"
        using v(2) by (rule py_get_no_objeto)
      from procesar_metadata_no_objeto[OF nav False i v(1) this] show ?thesis by blast
    qed
  qed
  then show ?thesis by (auto simp: procesar_elemento_def)
qed


text \<open>
  C10. In the partitioned extractor, a record whose path declaracion, situacionPatrimonial,
  datosGenerales is present with an empty object as datosGenerales gives no
  Person-Record, as a record without datosGenerales does: the body falls through without
  raising and \<^verbatim>\<open>None\<close> is returned.
\<close>

theorem datos_generales_vacios_sin_registro:
  assumes "map_of r ''declaracion'' = Some (JObj d)"
    and "map_of d ''situacionPatrimonial'' = Some (JObj sp)"
    and "map_of sp ''datosGenerales'' = Some (JObj []) \<or> map_of sp ''datosGenerales'' = None"
  shows "extraer_cuerpo str_otro (JObj r) = Inr None
     \<and> extraer_datos_persona str_otro (JObj r) = None"
  using assms(3) navegar_objeto[OF assms(1,2)]
  by (auto simp add: extraer_cuerpo_def extraer_datos_persona_def luego_def)

theorem datos_generales_vacios_sin_registro_witness:
  "extraer_cuerpo (\<lambda>v. [])
     (JObj [(''id'', JStr ''7''),
            (''declaracion'', JObj [(''situacionPatrimonial'',
               JObj [(''datosGenerales'', JObj [])])])]) = Inr None
   \<and> extraer_datos_persona (\<lambda>v. [])
     (JObj [(''id'', JStr ''7''),
            (''declaracion'', JObj [(''situacionPatrimonial'',
               JObj [(''datosGenerales'', JObj [])])])]) = None"
  using datos_generales_vacios_sin_registro
    [of "[(''id'', JStr ''7''),
          (''declaracion'', JObj [(''situacionPatrimonial'',
             JObj [(''datosGenerales'', JObj [])])])]"
        "[(''situacionPatrimonial'', JObj [(''datosGenerales'', JObj [])])]"
        "[(''datosGenerales'', JObj [])]" "\<lambda>v. []"]
  by simp

lemma datos_generales_de_elemento: "datos_generales_de (elemento_de i dg) = Some dg"
  by (simp add: elemento_de_def datos_generales_de_def)

lemma metadata_de_elemento: "metadata_de (elemento_de i dg) = Some []"
  by (simp add: elemento_de_def metadata_de_def)

text \<open>
  C4 (as amended). For an element whose datosGenerales resolves to empty strings for the
  three name fields, the whole-tree extractor appends nothing. The partitioned extractor
  returns a record, with three empty names and a full name of two spaces, exactly when
  datosGenerales is a non-empty object and the metadata is absent or an object; with an
  empty datosGenerales, or a metadata that is not an object, it returns \<^verbatim>\<open>None\<close>.
\<close>

theorem nombres_vacios:
  assumes "datos_generales_de registro = Some dg"
    and "campo dg ''nombre'' (JStr []) = JStr []"
    and "campo dg ''primerApellido'' (JStr []) = JStr []"
    and "campo dg ''segundoApellido'' (JStr []) = JStr []"
  shows "procesar_registro str_otro ruta registro = Inr None
     \<and> (dg \<noteq> [] \<and> metadata_de registro \<noteq> None \<longrightarrow>
          (\<exists>p. extraer_datos_persona str_otro registro = Some p
             \<and> nombre p = JStr [] \<and> primerApellido p = JStr [] \<and> segundoApellido p = JStr []
             \<and> nombreCompleto p = ''  ''))
     \<and> (dg = [] \<or> metadata_de registro = None \<longrightarrow>
          extraer_datos_persona str_otro registro = None)"
proof (intro conjI impI)
  show "procesar_registro str_otro ruta registro = Inr None"
    using assms(2,3) by (intro procesar_sin_nombre[OF assms(1)]) simp
next
  assume "dg \<noteq> [] \<and> metadata_de registro \<noteq> None"
  then obtain m where m: "dg \<noteq> []" "metadata_de registro = Some m" by auto
  show "\<exists>p. extraer_datos_persona str_otro registro = Some p
             \<and> nombre p = JStr [] \<and> primerApellido p = JStr [] \<and> segundoApellido p = JStr []
             \<and> nombreCompleto p = ''  ''"
    using assms(2,3,4)
    by (simp add: extraer_datos_persona_def extraer_forma[OF assms(1) m] nombre_completo_def)
next
  assume "dg = [] \<or> metadata_de registro = None"
  then have "\<not> forma_esperada registro"
    using assms(1) by (auto simp: forma_esperada_def)
  then show "extraer_datos_persona str_otro registro = None"
    by (rule extraer_malformado)
qed

theorem nombres_vacios_witness:
  "procesar_registro (\<lambda>v. []) ''a.json'' (elemento_de ''1'' [(''nombre'', JStr [])]) = Inr None
   \<and> (\<exists>p. extraer_datos_persona (\<lambda>v. []) (elemento_de ''1'' [(''nombre'', JStr [])]) = Some p
          \<and> nombre p = JStr [] \<and> primerApellido p = JStr [] \<and> segundoApellido p = JStr []
          \<and> nombreCompleto p = ''  '')
   \<and> extraer_datos_persona (\<lambda>v. []) (elemento_de ''1'' []) = None"
  using nombres_vacios[of "elemento_de ''1'' [(''nombre'', JStr [])]" "[(''nombre'', JStr [])]"
          "\<lambda>v. []" "''a.json''"]
    nombres_vacios[of "elemento_de ''1'' []" "[]" "\<lambda>v. []" "''a.json''"]
  by (simp add: datos_generales_de_elemento metadata_de_elemento campo_def)

text \<open>
  C4 as stated fails: with the path present and the three names resolving to empty
  strings, the partitioned extractor returns \<^verbatim>\<open>None\<close> when datosGenerales is the empty
  object, and when the metadata is \<^verbatim>\<open>null\<close>.
\<close>

theorem particionado_sin_registro_counterexample:
  "datos_generales_de (elemento_de ''1'' []) = Some []
   \<and> extraer_datos_persona (\<lambda>v. []) (elemento_de ''1'' []) = None
   \<and> datos_generales_de
        (JObj [(''metadata'', JNull),
               (''declaracion'', JObj [(''situacionPatrimonial'',
                  JObj [(''datosGenerales'', JObj [(''nombre'', JStr [])])])])])
       = Some [(''nombre'', JStr [])]
   \<and> extraer_datos_persona (\<lambda>v. [])
        (JObj [(''metadata'', JNull),
               (''declaracion'', JObj [(''situacionPatrimonial'',
                  JObj [(''datosGenerales'', JObj [(''nombre'', JStr [])])])])])
       = None"
  by (simp add: elemento_de_def datos_generales_de_def extraer_datos_persona_def
      extraer_cuerpo_def navegar_def luego_def)


lemma extraer_esperada:
  assumes "forma_esperada registro"
  shows "\<exists>p. extraer_datos_persona str_otro registro = Some p"
proof -
  from assms obtain dg m where
    "datos_generales_de registro = Some dg" "dg \<noteq> []" "metadata_de registro = Some m"
    by (auto simp: forma_esperada_def split: option.splits)
  from extraer_forma[OF this] show ?thesis
    by (simp add: extraer_datos_persona_def)
qed

lemma procesar_esperada:
  assumes "forma_esperada registro" "con_nombre registro"
  shows "\<exists>k oc. procesar_registro str_otro ruta registro = Inr (Some (k, oc))"
proof -
  from assms(1) obtain dg m where
    h: "datos_generales_de registro = Some dg" "dg \<noteq> []" "metadata_de registro = Some m"
    by (auto simp: forma_esperada_def split: option.splits)
  from assms(2) h(1) have
    n: "py_bool (campo dg ''nombre'' (JStr []))" "py_bool (campo dg ''primerApellido'' (JStr []))"
    by (simp_all add: con_nombre_def)
  from procesar_forma[OF h n] show ?thesis by blast
qed

lemma agregar_ocurrencias:
  "mset (concat (map snd (agregar k v datos))) = mset (concat (map snd datos)) + {#v#}"
  by (induction datos) auto

lemma agregar_al_final:
  "map_of (agregar k v datos) k =
     Some ((case map_of datos k of None \<Rightarrow> [] | Some os \<Rightarrow> os) @ [v])"
  by (induction datos) auto

lemma agregar_otra_clave:
  "k' \<noteq> k \<Longrightarrow> map_of (agregar k v datos) k' = map_of datos k'"
  by (induction datos) auto

lemma procesar_esperada_campos:
  assumes "forma_esperada registro" "con_nombre registro"
  shows "\<exists>k oc dg. procesar_registro str_otro ruta registro = Inr (Some (k, oc))
     \<and> datos_generales_de registro = Some dg
     \<and> o_nombre oc = campo dg ''nombre'' (JStr [])
     \<and> o_primerApellido oc = campo dg ''primerApellido'' (JStr [])
     \<and> o_segundoApellido oc = campo dg ''segundoApellido'' (JStr [])
     \<and> o_rutaArchivo oc = ruta
     \<and> k = persona_key str_otro (o_nombre oc) (o_primerApellido oc) (o_segundoApellido oc)"
proof -
  from assms(1) obtain dg m where
    h: "datos_generales_de registro = Some dg" "dg \<noteq> []" "metadata_de registro = Some m"
    by (auto simp: forma_esperada_def split: option.splits)
  from assms(2) h(1) have
    n: "py_bool (campo dg ''nombre'' (JStr []))" "py_bool (campo dg ''primerApellido'' (JStr []))"
    by (simp_all add: con_nombre_def)
  from procesar_forma[OF h n, of str_otro ruta] h(1) show ?thesis by simp
qed

text \<open>
  C6. A file whose array holds two elements of the expected shape and one malformed
  element, at any of the three positions: the partitioned reader appends exactly the two
  records of the well-formed elements, in their order, and counts the file as processed.
  The whole-tree extractor, when the two elements also carry a name and a first surname,
  leaves \<^verbatim>\<open>datos_personas\<close> with exactly two occurrences more than before: the occurrence of
  each well-formed element, with the names of its datosGenerales and the path of the
  file, in the list of the key made of those names, the second one at the end of its
  list. The malformed element leaves the accumulated data as it was, whether its
  processing raised or not, and the loop goes on.
\<close>

theorem elemento_malformado_omitido:
  assumes "forma_esperada a" "forma_esperada b" "\<not> forma_esperada m"
    and "contenido \<in> {[m, a, b], [a, m, b], [a, b, m]}"
  shows "(\<exists>pa pb. extraer_datos_persona str_otro a = Some pa
            \<and> extraer_datos_persona str_otro b = Some pb
            \<and> extraer_datos_persona str_otro m = None
            \<and> leer_archivo str_otro (registros, n) (ruta, Inr (JArr contenido))
                = (registros @ [con_ruta ruta pa, con_ruta ruta pb], n + 1))
     \<and> (con_nombre a \<and> con_nombre b \<longrightarrow>
          (\<exists>ka oa kb ob dga dgb. procesar_registro str_otro ruta a = Inr (Some (ka, oa))
            \<and> procesar_registro str_otro ruta b = Inr (Some (kb, ob))
            \<and> procesar_elemento str_otro ruta datos m = datos
            \<and> procesar_archivo_json str_otro ruta (Inr (JArr contenido)) datos
                = agregar kb ob (agregar ka oa datos)
            \<and> mset (concat (map snd
                  (procesar_archivo_json str_otro ruta (Inr (JArr contenido)) datos)))
                = mset (concat (map snd datos)) + {#oa, ob#}
            \<and> length (concat (map snd
                  (procesar_archivo_json str_otro ruta (Inr (JArr contenido)) datos)))
                = length (concat (map snd datos)) + 2
            \<and> (\<exists>os. map_of (procesar_archivo_json str_otro ruta (Inr (JArr contenido)) datos) ka
                       = Some os \<and> oa \<in> set os)
            \<and> (\<exists>os. map_of (procesar_archivo_json str_otro ruta (Inr (JArr contenido)) datos) kb
                       = Some (os @ [ob]))
            \<and> datos_generales_de a = Some dga
            \<and> o_nombre oa = campo dga ''nombre'' (JStr [])
            \<and> o_primerApellido oa = campo dga ''primerApellido'' (JStr [])
            \<and> o_segundoApellido oa = campo dga ''segundoApellido'' (JStr [])
            \<and> o_rutaArchivo oa = ruta
            \<and> ka = persona_key str_otro (o_nombre oa) (o_primerApellido oa) (o_segundoApellido oa)
            \<and> datos_generales_de b = Some dgb
            \<and> o_nombre ob = campo dgb ''nombre'' (JStr [])
            \<and> o_primerApellido ob = campo dgb ''primerApellido'' (JStr [])
            \<and> o_segundoApellido ob = campo dgb ''segundoApellido'' (JStr [])
            \<and> o_rutaArchivo ob = ruta
            \<and> kb = persona_key str_otro (o_nombre ob) (o_primerApellido ob) (o_segundoApellido ob)))"
proof (intro conjI impI)
  from extraer_esperada[OF assms(1)] obtain pa where
    pa: "extraer_datos_persona str_otro a = Some pa" ..
  from extraer_esperada[OF assms(2)] obtain pb where
    pb: "extraer_datos_persona str_otro b = Some pb" ..
  note pm = extraer_malformado[OF assms(3), of str_otro]
  have "leer_archivo str_otro (registros, n) (ruta, Inr (JArr contenido))
          = (registros @ [con_ruta ruta pa, con_ruta ruta pb], n + 1)"
    using assms(4) pa pb pm
    by (auto simp: leer_archivo_def luego_Inr List.map_filter_simps)
  with pa pb pm show "\<exists>pa pb. extraer_datos_persona str_otro a = Some pa
            \<and> extraer_datos_persona str_otro b = Some pb
            \<and> extraer_datos_persona str_otro m = None
            \<and> leer_archivo str_otro (registros, n) (ruta, Inr (JArr contenido))
                = (registros @ [con_ruta ruta pa, con_ruta ruta pb], n + 1)"
    by blast
next
  assume cn: "con_nombre a \<and> con_nombre b"
  let ?R = "procesar_archivo_json str_otro ruta (Inr (JArr contenido)) datos"
  from procesar_esperada_campos[OF assms(1), of str_otro ruta] cn obtain ka oa dga where
    ra: "procesar_registro str_otro ruta a = Inr (Some (ka, oa))"
    and ca: "datos_generales_de a = Some dga"
      "o_nombre oa = campo dga ''nombre'' (JStr [])"
      "o_primerApellido oa = campo dga ''primerApellido'' (JStr [])"
      "o_segundoApellido oa = campo dga ''segundoApellido'' (JStr [])"
      "o_rutaArchivo oa = ruta"
      "ka = persona_key str_otro (o_nombre oa) (o_primerApellido oa) (o_segundoApellido oa)"
    by blast
  from procesar_esperada_campos[OF assms(2), of str_otro ruta] cn obtain kb ob dgb where
    rb: "procesar_registro str_otro ruta b = Inr (Some (kb, ob))"
    and cb: "datos_generales_de b = Some dgb"
      "o_nombre ob = campo dgb ''nombre'' (JStr [])"
      "o_primerApellido ob = campo dgb ''primerApellido'' (JStr [])"
      "o_segundoApellido ob = campo dgb ''segundoApellido'' (JStr [])"
      "o_rutaArchivo ob = ruta"
      "kb = persona_key str_otro (o_nombre ob) (o_primerApellido ob) (o_segundoApellido ob)"
    by blast
  note rm = procesar_malformado[OF assms(3), of str_otro ruta]
  have ea: "\<And>d. procesar_elemento str_otro ruta d a = agregar ka oa d"
    using ra by (simp add: procesar_elemento_def)
  have eb: "\<And>d. procesar_elemento str_otro ruta d b = agregar kb ob d"
    using rb by (simp add: procesar_elemento_def)
  have R: "?R = agregar kb ob (agregar ka oa datos)"
    using assms(4) ea eb rm
    by (auto simp: procesar_archivo_json_def luego_Inr)
  have ms: "mset (concat (map snd ?R)) = mset (concat (map snd datos)) + {#oa, ob#}"
    unfolding R by (simp add: agregar_ocurrencias)
  have ln: "length (concat (map snd ?R)) = length (concat (map snd datos)) + 2"
    using arg_cong[OF ms, of size] by simp
  have la: "\<exists>os. map_of ?R ka = Some os \<and> oa \<in> set os"
  proof (cases "ka = kb")
    case True
    then show ?thesis unfolding R by (simp add: agregar_al_final)
  next
    case False
    then show ?thesis unfolding R by (simp add: agregar_otra_clave agregar_al_final)
  qed
  have lb: "\<exists>os. map_of ?R kb = Some (os @ [ob])"
    unfolding R by (simp add: agregar_al_final)
  from ra rb rm R ms ln la lb ca cb
  show "\<exists>ka oa kb ob dga dgb. procesar_registro str_otro ruta a = Inr (Some (ka, oa))
            \<and> procesar_registro str_otro ruta b = Inr (Some (kb, ob))
            \<and> procesar_elemento str_otro ruta datos m = datos
            \<and> procesar_archivo_json str_otro ruta (Inr (JArr contenido)) datos
                = agregar kb ob (agregar ka oa datos)
            \<and> mset (concat (map snd
                  (procesar_archivo_json str_otro ruta (Inr (JArr contenido)) datos)))
                = mset (concat (map snd datos)) + {#oa, ob#}
            \<and> length (concat (map snd
                  (procesar_archivo_json str_otro ruta (Inr (JArr contenido)) datos)))
                = length (concat (map snd datos)) + 2
            \<and> (\<exists>os. map_of (procesar_archivo_json str_otro ruta (Inr (JArr contenido)) datos) ka
                       = Some os \<and> oa \<in> set os)
            \<and> (\<exists>os. map_of (procesar_archivo_json str_otro ruta (Inr (JArr contenido)) datos) kb
                       = Some (os @ [ob]))
            \<and> datos_generales_de a = Some dga
            \<and> o_nombre oa = campo dga ''nombre'' (JStr [])
            \<and> o_primerApellido oa = campo dga ''primerApellido'' (JStr [])
            \<and> o_segundoApellido oa = campo dga ''segundoApellido'' (JStr [])
            \<and> o_rutaArchivo oa = ruta
            \<and> ka = persona_key str_otro (o_nombre oa) (o_primerApellido oa) (o_segundoApellido oa)
            \<and> datos_generales_de b = Some dgb
            \<and> o_nombre ob = campo dgb ''nombre'' (JStr [])
            \<and> o_primerApellido ob = campo dgb ''primerApellido'' (JStr [])
            \<and> o_segundoApellido ob = campo dgb ''segundoApellido'' (JStr [])
            \<and> o_rutaArchivo ob = ruta
            \<and> kb = persona_key str_otro (o_nombre ob) (o_primerApellido ob) (o_segundoApellido ob)"
    by (intro exI[of _ ka] exI[of _ oa] exI[of _ kb] exI[of _ ob] exI[of _ dga] exI[of _ dgb])
       (intro conjI; assumption)
qed

lemma ejemplos_forma:
  "forma_esperada ejemplo_ana" "forma_esperada ejemplo_bob" "\<not> forma_esperada ejemplo_malformado"
  "con_nombre ejemplo_ana" "con_nombre ejemplo_bob"
  by (simp_all add: ejemplo_ana_def ejemplo_bob_def ejemplo_malformado_def elemento_de_def
      forma_esperada_def con_nombre_def datos_generales_de_def metadata_de_def campo_def)

lemma archivo_ejemplo_evaluado:
  "procesar_archivo_json (\<lambda>v. []) ''f.json''
      (Inr (JArr [ejemplo_ana, ejemplo_malformado, ejemplo_bob])) []
     = [(''Ana|Lopez|Garcia'', [oc_ejemplo ''1'' ''Ana'' ''Lopez'' ''Garcia'' ''f.json'']),
        (''Bob|Diaz|'', [oc_ejemplo ''2'' ''Bob'' ''Diaz'' [] ''f.json''])]"
  "leer_archivo (\<lambda>v. []) ([], 0)
      (''f.json'', Inr (JArr [ejemplo_ana, ejemplo_malformado, ejemplo_bob]))
     = ([persona_ejemplo ''1'' ''Ana'' ''Lopez'' ''Garcia'' ''f.json'',
         persona_ejemplo ''2'' ''Bob'' ''Diaz'' [] ''f.json''], 1)"
  by (simp_all add: ejemplo_ana_def ejemplo_bob_def ejemplo_malformado_def elemento_de_def
      leer_archivo_def procesar_archivo_json_def procesar_elemento_def procesar_registro_def
      extraer_datos_persona_def extraer_cuerpo_def navegar_def luego_def List.map_filter_simps
      con_ruta_def nombre_completo_def persona_key_def oc_ejemplo_def persona_ejemplo_def)

theorem elemento_malformado_omitido_witness:
  "forma_esperada ejemplo_ana \<and> forma_esperada ejemplo_bob
   \<and> \<not> forma_esperada ejemplo_malformado \<and> con_nombre ejemplo_ana \<and> con_nombre ejemplo_bob
   \<and> leer_archivo (\<lambda>v. []) ([], 0)
        (''f.json'', Inr (JArr [ejemplo_ana, ejemplo_malformado, ejemplo_bob]))
       = ([persona_ejemplo ''1'' ''Ana'' ''Lopez'' ''Garcia'' ''f.json'',
           persona_ejemplo ''2'' ''Bob'' ''Diaz'' [] ''f.json''], 1)
   \<and> procesar_archivo_json (\<lambda>v. []) ''f.json''
        (Inr (JArr [ejemplo_ana, ejemplo_malformado, ejemplo_bob])) []
       = [(''Ana|Lopez|Garcia'', [oc_ejemplo ''1'' ''Ana'' ''Lopez'' ''Garcia'' ''f.json'']),
          (''Bob|Diaz|'', [oc_ejemplo ''2'' ''Bob'' ''Diaz'' [] ''f.json''])]
   \<and> length (concat (map snd (procesar_archivo_json (\<lambda>v. []) ''f.json''
        (Inr (JArr [ejemplo_ana, ejemplo_malformado, ejemplo_bob])) []))) = 2
   \<and> (\<exists>pa pb. extraer_datos_persona (\<lambda>v. []) ejemplo_ana = Some pa
         \<and> extraer_datos_persona (\<lambda>v. []) ejemplo_bob = Some pb
         \<and> extraer_datos_persona (\<lambda>v. []) ejemplo_malformado = None
         \<and> leer_archivo (\<lambda>v. []) ([], 0)
              (''f.json'', Inr (JArr [ejemplo_ana, ejemplo_malformado, ejemplo_bob]))
             = ([con_ruta ''f.json'' pa, con_ruta ''f.json'' pb], 1))
   \<and> (\<exists>ka oa kb ob. procesar_registro (\<lambda>v. []) ''f.json'' ejemplo_ana = Inr (Some (ka, oa))
         \<and> procesar_registro (\<lambda>v. []) ''f.json'' ejemplo_bob = Inr (Some (kb, ob))
         \<and> procesar_elemento (\<lambda>v. []) ''f.json'' [] ejemplo_malformado = []
         \<and> mset (concat (map snd (procesar_archivo_json (\<lambda>v. []) ''f.json''
              (Inr (JArr [ejemplo_ana, ejemplo_malformado, ejemplo_bob])) []))) = {#oa, ob#}
         \<and> o_rutaArchivo oa = ''f.json'' \<and> o_rutaArchivo ob = ''f.json'')"
proof -
  note t = elemento_malformado_omitido[OF ejemplos_forma(1,2,3),
      of "[ejemplo_ana, ejemplo_malformado, ejemplo_bob]" "\<lambda>v. []" "[]" 0 "''f.json''" "[]"]
  from t have p: "\<exists>pa pb. extraer_datos_persona (\<lambda>v. []) ejemplo_ana = Some pa
         \<and> extraer_datos_persona (\<lambda>v. []) ejemplo_bob = Some pb
         \<and> extraer_datos_persona (\<lambda>v. []) ejemplo_malformado = None
         \<and> leer_archivo (\<lambda>v. []) ([], 0)
              (''f.json'', Inr (JArr [ejemplo_ana, ejemplo_malformado, ejemplo_bob]))
             = ([con_ruta ''f.json'' pa, con_ruta ''f.json'' pb], 1)"
    by simp
  from t ejemplos_forma(4,5) obtain ka oa kb ob where
    w: "procesar_registro (\<lambda>v. []) ''f.json'' ejemplo_ana = Inr (Some (ka, oa))"
      "procesar_registro (\<lambda>v. []) ''f.json'' ejemplo_bob = Inr (Some (kb, ob))"
      "procesar_elemento (\<lambda>v. []) ''f.json'' [] ejemplo_malformado = []"
      "mset (concat (map snd (procesar_archivo_json (\<lambda>v. []) ''f.json''
          (Inr (JArr [ejemplo_ana, ejemplo_malformado, ejemplo_bob])) []))) = {#oa, ob#}"
      "length (concat (map snd (procesar_archivo_json (\<lambda>v. []) ''f.json''
          (Inr (JArr [ejemplo_ana, ejemplo_malformado, ejemplo_bob])) []))) = 2"
      "o_rutaArchivo oa = ''f.json''" "o_rutaArchivo ob = ''f.json''"
    by auto
  from w have "\<exists>ka oa kb ob. procesar_registro (\<lambda>v. []) ''f.json'' ejemplo_ana = Inr (Some (ka, oa))
         \<and> procesar_registro (\<lambda>v. []) ''f.json'' ejemplo_bob = Inr (Some (kb, ob))
         \<and> procesar_elemento (\<lambda>v. []) ''f.json'' [] ejemplo_malformado = []
         \<and> mset (concat (map snd (procesar_archivo_json (\<lambda>v. []) ''f.json''
              (Inr (JArr [ejemplo_ana, ejemplo_malformado, ejemplo_bob])) []))) = {#oa, ob#}
         \<and> o_rutaArchivo oa = ''f.json'' \<and> o_rutaArchivo ob = ''f.json''"
    by blast
  with p w(5) ejemplos_forma archivo_ejemplo_evaluado show ?thesis by blast
qed

lemma ejemplo_evaluado:
  "map nombreCompleto (fst (leer_archivo (\<lambda>v. []) ([], 0)
      (''f.json'', Inr (JArr [ejemplo_ana, ejemplo_malformado, ejemplo_bob]))))
     = [''Ana Lopez Garcia'', ''Bob Diaz '']"
  "map fst (procesar_archivo_json (\<lambda>v. []) ''f.json''
      (Inr (JArr [ejemplo_ana, ejemplo_malformado, ejemplo_bob])) [])
     = [''Ana|Lopez|Garcia'', ''Bob|Diaz|'']"
  by (simp_all add: ejemplo_ana_def ejemplo_bob_def ejemplo_malformado_def elemento_de_def
      leer_archivo_def procesar_archivo_json_def procesar_elemento_def procesar_registro_def
      extraer_datos_persona_def extraer_cuerpo_def navegar_def luego_def List.map_filter_simps
      con_ruta_def nombre_completo_def persona_key_def)

section \<open>The whole-tree report\<close>

lemma partir_no_vacio: "partir sep acc s \<noteq> []"
  by (induction s arbitrary: acc) auto

lemma length_partir: "length (partir sep acc s) = Suc (count_list s sep)"
  by (induction s arbitrary: acc) auto

lemma unir_partir: "unir sep (partir sep acc s) = acc @ s"
proof (induction s arbitrary: acc)
  case Nil
  then show ?case by simp
next
  case (Cons c cs)
  show ?case
  proof (cases "c = sep")
    case True
    obtain x xs where "partir sep [] cs = x # xs"
      using partir_no_vacio[of sep "[]" cs] by (cases "partir sep [] cs") auto
    with Cons[of "[]"] True show ?thesis by simp
  next
    case False
    with Cons[of "acc @ [c]"] show ?thesis by simp
  qed
qed

lemma desempaquetar_Inr_iff: "desempaquetar ps = Inr t \<longleftrightarrow> (\<exists>a b c. ps = [a, b, c] \<and> t = (a, b, c))"
  by (cases ps rule: desempaquetar.cases) auto

lemma desempaquetar_Inl: "desempaquetar ps = Inl e \<Longrightarrow> e = ValueError \<and> length ps \<noteq> 3"
  by (cases ps rule: desempaquetar.cases) auto

lemma desempaquetar_length: "length ps \<noteq> 3 \<Longrightarrow> desempaquetar ps = Inl ValueError"
  by (cases ps rule: desempaquetar.cases) auto

lemma split_barra_tres:
  "split_barra k = [n, p, s] \<Longrightarrow> k = n @ ''|'' @ p @ ''|'' @ s"
  using unir_partir[of "CHR ''|''" "[]" k] by (simp add: split_barra_def)

lemma count_persona_key:
  "count_list (persona_key str_otro n p s) (CHR ''|'') =
     2 + count_list (formatear str_otro n) (CHR ''|'') + count_list (formatear str_otro p) (CHR ''|'')
       + count_list (formatear str_otro s) (CHR ''|'')"
  by (simp add: persona_key_def)

lemma agregar_entrada:
  "(k', os') \<in> set (agregar k v datos) \<Longrightarrow>
     (k', os') \<in> set datos
     \<or> (k' = k \<and> (\<exists>os. os' = os @ [v] \<and> ((k, os) \<in> set datos \<or> os = [])))"
proof (induction datos)
  case Nil
  then show ?case by simp
next
  case (Cons x datos)
  obtain a b where x: "x = (a, b)" by (cases x)
  show ?case
  proof (cases "k = a")
    case True
    with Cons.prems x show ?thesis by auto
  next
    case False
    with Cons.prems x have "(k', os') = (a, b) \<or> (k', os') \<in> set (agregar k v datos)"
      by simp
    then show ?thesis
    proof
      assume "(k', os') = (a, b)"
      with x show ?thesis by simp
    next
      assume "(k', os') \<in> set (agregar k v datos)"
      from Cons.IH[OF this] show ?thesis by auto
    qed
  qed
qed

lemma agregar_set:
  assumes "(k', os') \<in> set (agregar k v datos)" "oc \<in> set os'"
  shows "(\<exists>os. (k', os) \<in> set datos \<and> oc \<in> set os) \<or> (k' = k \<and> oc = v)"
  using agregar_entrada[OF assms(1)] assms(2) by auto

lemma claves_agregar:
  "map fst (agregar k v datos) =
     (if k \<in> set (map fst datos) then map fst datos else map fst datos @ [k])"
  by (induction datos) fastforce+

lemma distinct_agregar:
  "distinct (map fst datos) \<Longrightarrow> distinct (map fst (agregar k v datos))"
  by (simp add: claves_agregar)

lemma acumulado_vacio: "acumulado str_otro []"
  by (simp add: acumulado_def)

lemma acumulado_elemento:
  assumes "acumulado str_otro datos"
  shows "acumulado str_otro (procesar_elemento str_otro ruta datos registro)"
proof (cases "procesar_registro str_otro ruta registro")
  case (Inl e)
  with assms show ?thesis by (simp add: procesar_elemento_def)
next
  case (Inr r)
  show ?thesis
  proof (cases r)
    case None
    with Inr assms show ?thesis by (simp add: procesar_elemento_def)
  next
    case (Some kv)
    obtain k v where kv: "kv = (k, v)" by (cases kv)
    from procesar_emite[of str_otro ruta registro k v] Inr Some kv
    have k: "k = clave_de str_otro v" by (simp add: clave_de_def)
    have "acumulado str_otro (agregar k v datos)"
      unfolding acumulado_def
    proof (intro conjI ballI)
      show "distinct (map fst (agregar k v datos))"
        using assms by (simp add: acumulado_def distinct_agregar)
    next
      fix x assume x: "x \<in> set (agregar k v datos)"
      obtain k' os' where xx: "x = (k', os')" by (cases x)
      have "\<forall>oc \<in> set os'. k' = clave_de str_otro oc"
      proof
        fix oc assume "oc \<in> set os'"
        from agregar_set[OF x[unfolded xx] this] show "k' = clave_de str_otro oc"
          using assms k by (auto simp: acumulado_def)
      qed
      with xx show "case x of (k, ocurrencias) \<Rightarrow> \<forall>oc\<in>set ocurrencias. k = clave_de str_otro oc"
        by simp
    qed
    with Inr Some kv show ?thesis by (simp add: procesar_elemento_def)
  qed
qed

lemma acumulado_foldl:
  "acumulado str_otro datos \<Longrightarrow>
     acumulado str_otro (foldl (procesar_elemento str_otro ruta) datos registros)"
  by (induction registros arbitrary: datos) (simp_all add: acumulado_elemento)

lemma acumulado_archivo:
  "acumulado str_otro datos \<Longrightarrow>
     acumulado str_otro (procesar_archivo_json str_otro ruta cargado datos)"
  by (simp add: procesar_archivo_json_def acumulado_foldl split: sum.splits)

lemma acumulado_archivos:
  "acumulado str_otro datos \<Longrightarrow>
     acumulado str_otro
       (foldl (\<lambda>datos (ruta, cargado). procesar_archivo_json str_otro ruta cargado datos)
          datos archivos)"
  by (induction archivos arbitrary: datos) (auto simp: acumulado_archivo)

lemma acumulado_explorar: "acumulado str_otro (explorar_directorios str_otro archivos)"
  unfolding explorar_directorios_def by (rule acumulado_archivos[OF acumulado_vacio])

lemma preparar_falla:
  "(k, ocurrencias) \<in> set xs \<Longrightarrow> desempaquetar (split_barra k) = Inl ValueError
     \<Longrightarrow> preparar_registros registros xs = Inl ValueError"
proof (induction xs arbitrary: registros)
  case Nil
  then show ?case by simp
next
  case (Cons x xs)
  obtain k' os' where x: "x = (k', os')" by (cases x)
  show ?case
  proof (cases "desempaquetar (split_barra k')")
    case (Inl e)
    with desempaquetar_Inl[OF Inl] x show ?thesis by simp
  next
    case (Inr t)
    with Cons.prems x have "(k, ocurrencias) \<in> set xs" by auto
    from Cons.IH[OF this Cons.prems(2)] Inr x show ?thesis
      by (simp split: prod.splits)
  qed
qed

lemma clave_con_barra:
  assumes "CHR ''|'' \<in> set (formatear str_otro n) \<union> set (formatear str_otro p)
             \<union> set (formatear str_otro s)"
  shows "desempaquetar (split_barra (persona_key str_otro n p s)) = Inl ValueError"
proof -
  have "\<And>xs. CHR ''|'' \<in> set xs \<Longrightarrow> 0 < count_list xs (CHR ''|'')"
  proof -
    fix xs :: string
    show "CHR ''|'' \<in> set xs \<Longrightarrow> 0 < count_list xs (CHR ''|'')"
      by (induction xs) auto
  qed
  with assms have "2 < count_list (persona_key str_otro n p s) (CHR ''|'')"
    unfolding count_persona_key by fastforce
  then have "length (split_barra (persona_key str_otro n p s)) \<noteq> 3"
    by (simp add: split_barra_def length_partir)
  then show ?thesis by (rule desempaquetar_length)
qed

text \<open>
  C9. In the whole-tree mode, when an occurrence of a duplicate group of the accumulated
  data has a name field containing the separator, the key of the group does not split in
  three: the unpacking raises \<^verbatim>\<open>ValueError\<close>, the handler swallows it, the function
  returns \<^verbatim>\<open>False\<close> and no row of any group is written.
\<close>

theorem barra_en_nombre_pierde_informe:
  assumes "datos = explorar_directorios str_otro archivos"
    and "(k, ocurrencias) \<in> set datos" and "length ocurrencias > 1"
    and "oc \<in> set ocurrencias"
    and "CHR ''|'' \<in> set (formatear str_otro (o_nombre oc))
           \<union> set (formatear str_otro (o_primerApellido oc))
           \<union> set (formatear str_otro (o_segundoApellido oc))"
  shows "generar_informe_duplicados escribir datos = Fallido ValueError
     \<and> retorno (generar_informe_duplicados escribir datos) = False
     \<and> filas_escritas (generar_informe_duplicados escribir datos) = []"
proof -
  have "acumulado str_otro datos"
    unfolding assms(1) by (rule acumulado_explorar)
  with assms(2,4) have "k = clave_de str_otro oc"
    by (auto simp: acumulado_def)
  with clave_con_barra[OF assms(5)] have f: "desempaquetar (split_barra k) = Inl ValueError"
    by (simp add: clave_de_def)
  from assms(2,3) have d: "(k, ocurrencias) \<in> set (duplicados_de datos)"
    by (simp add: duplicados_de_def)
  then have "duplicados_de datos \<noteq> []" by auto
  moreover from preparar_falla[OF d f]
  have "preparar_registros [] (duplicados_de datos) = Inl ValueError" .
  ultimately have "generar_informe_duplicados escribir datos = Fallido ValueError"
    by (simp add: generar_informe_duplicados_def)
  then show ?thesis by simp
qed

lemma preparar_ok:
  "preparar_registros registros xs = Inr rs \<Longrightarrow>
     rs = registros @ concat (map (\<lambda>(k, os). filas_de_clave k os) xs)
     \<and> (\<forall>(k, os) \<in> set xs. \<exists>n p s. split_barra k = [n, p, s])"
proof (induction xs arbitrary: registros)
  case Nil
  then show ?case by simp
next
  case (Cons x xs)
  obtain k os where x: "x = (k, os)" by (cases x)
  from Cons.prems x obtain n p s where
    d: "desempaquetar (split_barra k) = Inr (n, p, s)"
    and r: "preparar_registros (registros @ filas_de_grupo n p s os) xs = Inr rs"
    by (auto split: sum.splits)
  from d have sp: "split_barra k = [n, p, s]"
    by (simp add: desempaquetar_Inr_iff)
  from Cons.IH[OF r] sp x show ?case
    by (simp add: filas_de_clave_def)
qed

lemma map_zip_primero:
  "length xs = length ys \<Longrightarrow> map (\<lambda>p. fst p) (zip xs ys) = xs"
  by (induction xs ys rule: list_induct2) auto

lemma map_zip_segundo:
  "length xs = length ys \<Longrightarrow> map (\<lambda>p. g (snd p)) (zip xs ys) = map g ys"
  by (induction xs ys rule: list_induct2) auto

lemma filas_de_grupo_campos:
  "map f_ocurrenciaNumero (filas_de_grupo n p s os) = [1 ..< Suc (length os)]"
  "map f_id (filas_de_grupo n p s os) = map o_id os"
  "map f_institucion (filas_de_grupo n p s os) = map o_institucion os"
  "map f_fechaActualizacion (filas_de_grupo n p s os) = map o_fechaActualizacion os"
  "map f_rutaArchivo (filas_de_grupo n p s os) = map o_rutaArchivo os"
  "length (filas_de_grupo n p s os) = length os"
proof -
  have l: "length [Suc 0 ..< Suc (length os)] = length os" by (simp del: upt_Suc)
  note a = map_zip_primero[OF l]
  note b = map_zip_segundo[OF l]
  show "map f_ocurrenciaNumero (filas_de_grupo n p s os) = [1 ..< Suc (length os)]"
    by (simp add: filas_de_grupo_def case_prod_unfold comp_def a del: upt_Suc)
  show "map f_id (filas_de_grupo n p s os) = map o_id os"
    by (simp add: filas_de_grupo_def case_prod_unfold comp_def b del: upt_Suc)
  show "map f_institucion (filas_de_grupo n p s os) = map o_institucion os"
    by (simp add: filas_de_grupo_def case_prod_unfold comp_def b del: upt_Suc)
  show "map f_fechaActualizacion (filas_de_grupo n p s os) = map o_fechaActualizacion os"
    by (simp add: filas_de_grupo_def case_prod_unfold comp_def b del: upt_Suc)
  show "map f_rutaArchivo (filas_de_grupo n p s os) = map o_rutaArchivo os"
    by (simp add: filas_de_grupo_def case_prod_unfold comp_def b del: upt_Suc)
  show "length (filas_de_grupo n p s os) = length os"
    by (simp add: filas_de_grupo_def del: upt_Suc)
qed

lemma filas_de_grupo_constantes:
  "f \<in> set (filas_de_grupo n p s os) \<Longrightarrow>
     f_nombre f = n \<and> f_primerApellido f = p \<and> f_segundoApellido f = s
     \<and> f_cantidadOcurrencias f = length os"
  by (auto simp: filas_de_grupo_def)

lemma filas_de_clave_clave:
  "f \<in> set (filas_de_clave k os) \<Longrightarrow> clave_fila f = k"
proof -
  assume f: "f \<in> set (filas_de_clave k os)"
  then have "\<exists>n p s. split_barra k = [n, p, s] \<and> f \<in> set (filas_de_grupo n p s os)"
    by (cases "split_barra k" rule: desempaquetar.cases) (auto simp: filas_de_clave_def)
  then obtain n p s where sp: "split_barra k = [n, p, s]"
    and g: "f \<in> set (filas_de_grupo n p s os)"
    by blast
  from filas_de_grupo_constantes[OF g] split_barra_tres[OF sp]
  show ?thesis by (simp add: clave_fila_def)
qed

lemma filter_otras_claves:
  "k \<notin> fst ` set xs \<Longrightarrow>
     filter (\<lambda>f. clave_fila f = k) (concat (map (\<lambda>(k, os). filas_de_clave k os) xs)) = []"
proof (induction xs)
  case Nil
  then show ?case by simp
next
  case (Cons x xs)
  obtain k' os' where x: "x = (k', os')" by (cases x)
  with Cons.prems have ne: "k' \<noteq> k" and nk: "k \<notin> fst ` set xs" by auto
  have "filter (\<lambda>f. clave_fila f = k) (filas_de_clave k' os') = []"
    using ne by (auto simp: filter_empty_conv dest: filas_de_clave_clave)
  with Cons.IH[OF nk] x show ?case by simp
qed

lemma filter_grupo:
  "distinct (map fst xs) \<Longrightarrow> (k, os) \<in> set xs \<Longrightarrow>
     filter (\<lambda>f. clave_fila f = k) (concat (map (\<lambda>(k, os). filas_de_clave k os) xs))
       = filas_de_clave k os"
proof (induction xs)
  case Nil
  then show ?case by simp
next
  case (Cons x xs)
  obtain k' os' where x: "x = (k', os')" by (cases x)
  show ?case
  proof (cases "k' = k")
    case True
    with Cons.prems x have nk: "k \<notin> fst ` set xs" by auto
    with Cons.prems(2) x True have eq: "os' = os" by (auto simp: image_iff)
    have "filter (\<lambda>f. clave_fila f = k) (filas_de_clave k os) = filas_de_clave k os"
      by (auto simp: filter_id_conv dest: filas_de_clave_clave)
    with filter_otras_claves[OF nk] x True eq show ?thesis by simp
  next
    case False
    with Cons.prems x have m: "(k, os) \<in> set xs" and d: "distinct (map fst xs)" by auto
    have "filter (\<lambda>f. clave_fila f = k) (filas_de_clave k' os') = []"
      using False by (auto simp: filter_empty_conv dest: filas_de_clave_clave)
    with Cons.IH[OF d m] x show ?thesis by simp
  qed
qed

text \<open>
  C8. In the whole-tree mode, when the report is written, the rows of a duplicate group
  of N occurrences are N rows numbered 1 to N in \<open>ocurrenciaNumero\<close>, the i-th row carrying
  the id, institution, date and path of the i-th occurrence of the group in the order it
  was accumulated (\<open>agregar\<close> appends at the end of the group's list), each with the
  count N. The keys of the dict are distinct, as they are in every \<^verbatim>\<open>datos_personas\<close> the
  walk builds (\<open>acumulado_explorar\<close>).
\<close>

theorem numeracion_de_ocurrencias:
  assumes "generar_informe_duplicados escribir datos = Generado registros"
    and "distinct (map fst datos)"
    and "(k, ocurrencias) \<in> set datos" and "length ocurrencias > 1"
  shows "\<exists>grupo. grupo = filter (\<lambda>f. clave_fila f = k) registros
     \<and> length grupo = length ocurrencias
     \<and> map f_ocurrenciaNumero grupo = [1 ..< Suc (length ocurrencias)]
     \<and> map f_id grupo = map o_id ocurrencias
     \<and> map f_institucion grupo = map o_institucion ocurrencias
     \<and> map f_fechaActualizacion grupo = map o_fechaActualizacion ocurrencias
     \<and> map f_rutaArchivo grupo = map o_rutaArchivo ocurrencias
     \<and> (\<forall>f \<in> set grupo. f_cantidadOcurrencias f = length ocurrencias)"
proof -
  from assms(1) have p: "preparar_registros [] (duplicados_de datos) = Inr registros"
    by (auto simp: generar_informe_duplicados_def Let_def split: if_splits sum.splits)
  from assms(3,4) have m: "(k, ocurrencias) \<in> set (duplicados_de datos)"
    by (simp add: duplicados_de_def)
  from assms(2) have d: "distinct (map fst (duplicados_de datos))"
    by (simp add: duplicados_de_def distinct_map_filter)
  from preparar_ok[OF p] m obtain n p' s where
    r: "registros = concat (map (\<lambda>(k, os). filas_de_clave k os) (duplicados_de datos))"
    and sp: "split_barra k = [n, p', s]"
    by auto
  have g: "filter (\<lambda>f. clave_fila f = k) registros = filas_de_grupo n p' s ocurrencias"
    unfolding r filter_grupo[OF d m] using sp by (simp add: filas_de_clave_def)
  show ?thesis
    unfolding g
    by (auto simp: filas_de_grupo_campos simp del: upt_Suc dest: filas_de_grupo_constantes)
qed

lemmas evaluar_extraccion =
  elemento_de_def explorar_directorios_def procesar_archivo_json_def procesar_elemento_def
  procesar_registro_def navegar_def luego_def persona_key_def oc_ejemplo_def

lemma explorar_ejemplo:
  "explorar_directorios (\<lambda>v. []) ejemplo_archivos =
     [(''Ana|Lopez|Garcia'',
        [oc_ejemplo ''1'' ''Ana'' ''Lopez'' ''Garcia'' ''a.json'',
         oc_ejemplo ''9'' ''Ana'' ''Lopez'' ''Garcia'' ''b.json'']),
      (''Bob|Diaz|'', [oc_ejemplo ''2'' ''Bob'' ''Diaz'' [] ''a.json''])]"
  by (simp add: ejemplo_archivos_def ejemplo_ana_def ejemplo_bob_def ejemplo_ana_otra_def
      evaluar_extraccion)

lemma explorar_barra:
  "explorar_directorios (\<lambda>v. []) [(''a.json'', Inr (JArr [ejemplo_barra, ejemplo_barra]))] =
     [(''Ana|Eva|Paz|'',
        [oc_ejemplo ''3'' ''Ana|Eva'' ''Paz'' [] ''a.json'',
         oc_ejemplo ''3'' ''Ana|Eva'' ''Paz'' [] ''a.json''])]"
  by (simp add: ejemplo_barra_def evaluar_extraccion)

lemma informe_ejemplo:
  "generar_informe_duplicados (\<lambda>r. Inr ()) (explorar_directorios (\<lambda>v. []) ejemplo_archivos)
     = Generado (filas_de_grupo ''Ana'' ''Lopez'' ''Garcia''
        [oc_ejemplo ''1'' ''Ana'' ''Lopez'' ''Garcia'' ''a.json'',
         oc_ejemplo ''9'' ''Ana'' ''Lopez'' ''Garcia'' ''b.json''])"
  by (simp add: explorar_ejemplo generar_informe_duplicados_def duplicados_de_def split_barra_def)

theorem numeracion_de_ocurrencias_witness:
  "distinct (map fst (explorar_directorios (\<lambda>v. []) ejemplo_archivos))
   \<and> generar_informe_duplicados (\<lambda>r. Inr ()) (explorar_directorios (\<lambda>v. []) ejemplo_archivos)
       = Generado (filas_de_grupo ''Ana'' ''Lopez'' ''Garcia''
          [oc_ejemplo ''1'' ''Ana'' ''Lopez'' ''Garcia'' ''a.json'',
           oc_ejemplo ''9'' ''Ana'' ''Lopez'' ''Garcia'' ''b.json''])
   \<and> map f_ocurrenciaNumero (filter (\<lambda>f. clave_fila f = ''Ana|Lopez|Garcia'')
        (filas_de_grupo ''Ana'' ''Lopez'' ''Garcia''
          [oc_ejemplo ''1'' ''Ana'' ''Lopez'' ''Garcia'' ''a.json'',
           oc_ejemplo ''9'' ''Ana'' ''Lopez'' ''Garcia'' ''b.json''])) = [1, 2]
   \<and> map f_id (filter (\<lambda>f. clave_fila f = ''Ana|Lopez|Garcia'')
        (filas_de_grupo ''Ana'' ''Lopez'' ''Garcia''
          [oc_ejemplo ''1'' ''Ana'' ''Lopez'' ''Garcia'' ''a.json'',
           oc_ejemplo ''9'' ''Ana'' ''Lopez'' ''Garcia'' ''b.json''])) = [JStr ''1'', JStr ''9'']
   \<and> map f_rutaArchivo (filter (\<lambda>f. clave_fila f = ''Ana|Lopez|Garcia'')
        (filas_de_grupo ''Ana'' ''Lopez'' ''Garcia''
          [oc_ejemplo ''1'' ''Ana'' ''Lopez'' ''Garcia'' ''a.json'',
           oc_ejemplo ''9'' ''Ana'' ''Lopez'' ''Garcia'' ''b.json''])) = [''a.json'', ''b.json'']"
  using numeracion_de_ocurrencias[OF informe_ejemplo,
      of "''Ana|Lopez|Garcia''"
         "[oc_ejemplo ''1'' ''Ana'' ''Lopez'' ''Garcia'' ''a.json'',
           oc_ejemplo ''9'' ''Ana'' ''Lopez'' ''Garcia'' ''b.json'']"]
    informe_ejemplo
  by (simp add: explorar_ejemplo oc_ejemplo_def)

theorem barra_en_nombre_pierde_informe_witness:
  "(''Ana|Eva|Paz|'',
      [oc_ejemplo ''3'' ''Ana|Eva'' ''Paz'' [] ''a.json'',
       oc_ejemplo ''3'' ''Ana|Eva'' ''Paz'' [] ''a.json''])
     \<in> set (explorar_directorios (\<lambda>v. [])
          [(''a.json'', Inr (JArr [ejemplo_barra, ejemplo_barra]))])
   \<and> CHR ''|'' \<in> set (formatear (\<lambda>v. [])
         (o_nombre (oc_ejemplo ''3'' ''Ana|Eva'' ''Paz'' [] ''a.json'')))
   \<and> generar_informe_duplicados (\<lambda>r. Inr ())
        (explorar_directorios (\<lambda>v. []) [(''a.json'', Inr (JArr [ejemplo_barra, ejemplo_barra]))])
       = Fallido ValueError
   \<and> retorno (generar_informe_duplicados (\<lambda>r. Inr ())
        (explorar_directorios (\<lambda>v. []) [(''a.json'', Inr (JArr [ejemplo_barra, ejemplo_barra]))]))
       = False
   \<and> filas_escritas (generar_informe_duplicados (\<lambda>r. Inr ())
        (explorar_directorios (\<lambda>v. []) [(''a.json'', Inr (JArr [ejemplo_barra, ejemplo_barra]))]))
       = []"
  using barra_en_nombre_pierde_informe[OF refl,
      of "''Ana|Eva|Paz|''"
         "[oc_ejemplo ''3'' ''Ana|Eva'' ''Paz'' [] ''a.json'',
           oc_ejemplo ''3'' ''Ana|Eva'' ''Paz'' [] ''a.json'']"
         "\<lambda>v. []" "[(''a.json'', Inr (JArr [ejemplo_barra, ejemplo_barra]))]"
         "oc_ejemplo ''3'' ''Ana|Eva'' ''Paz'' [] ''a.json''" "\<lambda>r. Inr ()"]
  by (simp add: explorar_barra) (simp add: oc_ejemplo_def)

section \<open>The analysis of a batch\<close>

lemma analizar_unidos:
  "analizar_duplicados df =
     (sort_key clave_orden (unidos df),
      length (remdups (map nombreCompleto (sort_key clave_orden (unidos df)))))"
  by (simp add: analizar_duplicados_def unidos_def Let_def)

lemma map_of_value_counts:
  "map_of (value_counts ns) n = (if n \<in> set ns then Some (count_list ns n) else None)"
proof -
  have "map_of (map (\<lambda>n. (n, count_list ns n)) xs) n
          = (if n \<in> set xs then Some (count_list ns n) else None)" for xs
    by (induction xs) auto
  from this[of "remdups ns"] show ?thesis by (simp add: value_counts_def)
qed

lemma con_conteo_campos:
  "nombreCompleto (con_conteo c r) = nombreCompleto r"
  "cantidadOcurrencias (con_conteo c r) = map_of c (nombreCompleto r)"
  "id_registro (con_conteo c r) = id_registro r"
  "nombre (con_conteo c r) = nombre r"
  "primerApellido (con_conteo c r) = primerApellido r"
  "segundoApellido (con_conteo c r) = segundoApellido r"
  "rutaArchivo (con_conteo c r) = rutaArchivo r"
  by (simp_all add: con_conteo_def)

lemma conteo_de_fila:
  assumes "r \<in> set df"
  shows "cantidadOcurrencias (con_conteo (value_counts (map nombreCompleto df)) r)
           = Some (count_list (map nombreCompleto df) (nombreCompleto r))"
  using assms by (simp add: con_conteo_campos map_of_value_counts)

lemma fila_de_unidos:
  assumes "f \<in> set (unidos df)"
  shows "\<exists>r \<in> set df. f = con_conteo (value_counts (map nombreCompleto df)) r
           \<and> 1 < count_list (map nombreCompleto df) (nombreCompleto r)
           \<and> cantidadOcurrencias f = Some (count_list (map nombreCompleto df) (nombreCompleto r))
           \<and> nombreCompleto f = nombreCompleto r"
proof -
  from assms obtain r where r: "r \<in> set df" "duplicated df r"
    and f: "f = con_conteo (value_counts (map nombreCompleto df)) r"
    by (auto simp: unidos_def)
  from r(2) have "1 < count_list (map nombreCompleto df) (nombreCompleto r)"
    by (simp add: duplicated_def)
  with r(1) f conteo_de_fila[OF r(1)] show ?thesis
    by (intro bexI[of _ r]) (simp_all add: con_conteo_campos)
qed

lemma count_list_mset: "mset xs = mset ys \<Longrightarrow> count_list xs a = count_list ys a"
  by (metis count_mset)

lemma unidos_permutacion:
  assumes "mset df = mset df'"
  shows "mset (unidos df) = mset (unidos df')"
proof -
  have n: "mset (map nombreCompleto df) = mset (map nombreCompleto df')"
    using assms by simp
  have c: "count_list (map nombreCompleto df) a = count_list (map nombreCompleto df') a" for a
    by (rule count_list_mset[OF n])
  have d: "duplicated df = duplicated df'"
    by (simp add: duplicated_def fun_eq_iff c)
  have s: "set df = set df'" using assms by (rule mset_eq_setD)
  have "con_conteo (value_counts (map nombreCompleto df)) r
          = con_conteo (value_counts (map nombreCompleto df')) r" if "r \<in> set df" for r
    using that s by (simp add: con_conteo_def map_of_value_counts c)
  then have "image_mset (con_conteo (value_counts (map nombreCompleto df)))
               (filter_mset (duplicated df') (mset df'))
           = image_mset (con_conteo (value_counts (map nombreCompleto df')))
               (filter_mset (duplicated df') (mset df'))"
    using s by (intro image_mset_cong) auto
  then show ?thesis
    using assms by (simp add: unidos_def d)
qed

lemma par_de_clave:
  "par_orden f =
     (case clave_orden f of ((a, b), n) \<Rightarrow> (if a = 0 then Some (nat (- b)) else None, n))"
  by (simp add: par_orden_def clave_orden_def split: option.splits)

lemma claves_ordenadas:
  "map clave_orden (sort_key clave_orden xs) = sort (map clave_orden xs)"
  by (rule properties_for_sort[symmetric]) simp_all

lemma claves_permutacion:
  assumes "mset xs = mset ys"
  shows "map clave_orden (sort_key clave_orden xs) = map clave_orden (sort_key clave_orden ys)"
proof -
  have "mset (map clave_orden xs) = mset (map clave_orden ys)" using assms by simp
  then have "sort (map clave_orden xs) = sort (map clave_orden ys)"
    by (intro properties_for_sort) simp_all
  then show ?thesis by (simp add: claves_ordenadas)
qed

lemma pares_permutacion:
  assumes "mset xs = mset ys"
  shows "map par_orden (sort_key clave_orden xs) = map par_orden (sort_key clave_orden ys)"
proof -
  let ?g = "\<lambda>k. case k of ((a, b), n) \<Rightarrow> (if a = (0::nat) then Some (nat (- b)) else None, n::string)"
  have "map par_orden zs = map ?g (map clave_orden zs)" for zs
    by (simp add: par_de_clave)
  with claves_permutacion[OF assms] show ?thesis by metis
qed

lemma antes_de_clave:
  assumes "cantidadOcurrencias a \<noteq> None" "cantidadOcurrencias b \<noteq> None"
    and "clave_orden a \<le> clave_orden b"
  shows "antes a b"
  using assms by (auto simp: antes_def clave_orden_def)

lemma ordenados_antes:
  "sorted_wrt antes (sort_key clave_orden (unidos df))"
proof -
  have s: "sorted_wrt (\<lambda>x y. clave_orden x \<le> clave_orden y) (sort_key clave_orden (unidos df))"
    using sorted_sort_key[of clave_orden "unidos df"] by (simp only: sorted_map)
  have n: "cantidadOcurrencias f \<noteq> None"
    if "f \<in> set (sort_key clave_orden (unidos df))" for f
    using that fila_de_unidos[of f df] by auto
  show ?thesis
  proof (rule sorted_wrt_mono_rel[OF _ s])
    fix x y
    assume "x \<in> set (sort_key clave_orden (unidos df))"
      and "y \<in> set (sort_key clave_orden (unidos df))"
      and "clave_orden x \<le> clave_orden y"
    then show "antes x y" by (intro antes_de_clave n)
  qed
qed

lemma clave_de_unidos:
  assumes "f \<in> set (unidos df)"
  shows "nombreCompleto f = n \<longleftrightarrow>
           clave_orden f = ((0, - int (count_list (map nombreCompleto df) n)), n)"
proof -
  from fila_de_unidos[OF assms] obtain r :: registro_persona where
    "cantidadOcurrencias f = Some (count_list (map nombreCompleto df) (nombreCompleto r))"
    "nombreCompleto f = nombreCompleto r" by blast
  then show ?thesis by (auto simp: clave_orden_def)
qed

lemma grupo_en_orden_de_lote:
  "filter (\<lambda>f. nombreCompleto f = n) (sort_key clave_orden (unidos df))
     = map (con_conteo (value_counts (map nombreCompleto df)))
         (filter (\<lambda>r. nombreCompleto r = n \<and> duplicated df r) df)"
proof -
  let ?k = "((0, - int (count_list (map nombreCompleto df) n)), n)"
  have "filter (\<lambda>f. nombreCompleto f = n) (sort_key clave_orden (unidos df))
          = filter (\<lambda>f. clave_orden f = ?k) (sort_key clave_orden (unidos df))"
    by (rule filter_cong[OF refl]) (simp add: clave_de_unidos)
  also have "\<dots> = filter (\<lambda>f. clave_orden f = ?k) (unidos df)"
    by (rule sort_key_stable)
  also have "\<dots> = filter (\<lambda>f. nombreCompleto f = n) (unidos df)"
    by (rule filter_cong[OF refl]) (simp add: clave_de_unidos)
  also have "\<dots> = map (con_conteo (value_counts (map nombreCompleto df)))
         (filter (\<lambda>r. nombreCompleto r = n \<and> duplicated df r) df)"
    by (simp add: unidos_def filter_map comp_def con_conteo_campos conj_commute)
  finally show ?thesis .
qed

lemma informe_en_orden_de_claves:
  assumes "generar_informe_duplicados escribir datos = Generado registros"
  shows "registros = concat (map (\<lambda>(k, os). filas_de_clave k os) (duplicados_de datos))"
proof -
  from assms have "preparar_registros [] (duplicados_de datos) = Inr registros"
    by (auto simp: generar_informe_duplicados_def Let_def split: if_splits sum.splits)
  from preparar_ok[OF this] show ?thesis by simp
qed

text \<open>
  C3 (as amended). In the partitioned modes the rows of \<^verbatim>\<open>analizar_duplicados\<close> are sorted by
  count, larger first, and then by full name, ascending. For two permutations of one
  batch the outputs hold the same rows, the same sequence of (count, full name) pairs
  and the same number of distinct duplicated names; the rows of one full name stand in
  the order they have in the batch. The whole-tree report is not sorted: its rows are
  the groups in the order of the keys in \<^verbatim>\<open>datos_personas\<close>.
\<close>

theorem orden_de_las_filas:
  assumes "mset df = mset df'"
  shows "sorted_wrt antes (fst (analizar_duplicados df))
     \<and> map par_orden (fst (analizar_duplicados df)) = map par_orden (fst (analizar_duplicados df'))
     \<and> mset (fst (analizar_duplicados df)) = mset (fst (analizar_duplicados df'))
     \<and> snd (analizar_duplicados df) = snd (analizar_duplicados df')
     \<and> filter (\<lambda>f. nombreCompleto f = n) (fst (analizar_duplicados df))
         = map (con_conteo (value_counts (map nombreCompleto df)))
             (filter (\<lambda>r. nombreCompleto r = n \<and> duplicated df r) df)
     \<and> (generar_informe_duplicados escribir datos = Generado registros \<longrightarrow>
          registros = concat (map (\<lambda>(k, os). filas_de_clave k os) (duplicados_de datos)))"
proof -
  note u = unidos_permutacion[OF assms]
  have m: "mset (sort_key clave_orden (unidos df)) = mset (sort_key clave_orden (unidos df'))"
    using u by simp
  have "set (map nombreCompleto (sort_key clave_orden (unidos df)))
          = set (map nombreCompleto (sort_key clave_orden (unidos df')))"
    using mset_eq_setD[OF m] by simp
  then have c: "length (remdups (map nombreCompleto (sort_key clave_orden (unidos df))))
          = length (remdups (map nombreCompleto (sort_key clave_orden (unidos df'))))"
    by (simp only: length_remdups_card_conv)
  show ?thesis
    using ordenados_antes[of df] pares_permutacion[OF u] m c grupo_en_orden_de_lote[of n df]
      informe_en_orden_de_claves[of escribir datos registros]
    by (simp add: analizar_unidos)
qed

lemma lotes_permutados: "mset lote_ejemplo = mset lote_ejemplo_permutado"
  by (simp add: lote_ejemplo_def lote_ejemplo_permutado_def)

theorem orden_de_las_filas_witness:
  "mset lote_ejemplo = mset lote_ejemplo_permutado
   \<and> sorted_wrt antes (fst (analizar_duplicados lote_ejemplo))
   \<and> map par_orden (fst (analizar_duplicados lote_ejemplo))
       = map par_orden (fst (analizar_duplicados lote_ejemplo_permutado))
   \<and> mset (fst (analizar_duplicados lote_ejemplo))
       = mset (fst (analizar_duplicados lote_ejemplo_permutado))
   \<and> snd (analizar_duplicados lote_ejemplo) = snd (analizar_duplicados lote_ejemplo_permutado)
   \<and> filter (\<lambda>f. nombreCompleto f = ''Bob Diaz '') (fst (analizar_duplicados lote_ejemplo))
       = map (con_conteo (value_counts (map nombreCompleto lote_ejemplo)))
           (filter (\<lambda>r. nombreCompleto r = ''Bob Diaz '' \<and> duplicated lote_ejemplo r)
              lote_ejemplo)
   \<and> generar_informe_duplicados (\<lambda>r. Inr ()) (explorar_directorios (\<lambda>v. []) ejemplo_archivos)
       = Generado (filas_de_grupo ''Ana'' ''Lopez'' ''Garcia''
          [oc_ejemplo ''1'' ''Ana'' ''Lopez'' ''Garcia'' ''a.json'',
           oc_ejemplo ''9'' ''Ana'' ''Lopez'' ''Garcia'' ''b.json''])
   \<and> filas_de_grupo ''Ana'' ''Lopez'' ''Garcia''
          [oc_ejemplo ''1'' ''Ana'' ''Lopez'' ''Garcia'' ''a.json'',
           oc_ejemplo ''9'' ''Ana'' ''Lopez'' ''Garcia'' ''b.json'']
       = concat (map (\<lambda>(k, os). filas_de_clave k os)
           (duplicados_de (explorar_directorios (\<lambda>v. []) ejemplo_archivos)))"
  using orden_de_las_filas[OF lotes_permutados,
      of "''Bob Diaz ''" "\<lambda>r. Inr ()" "explorar_directorios (\<lambda>v. []) ejemplo_archivos"
         "filas_de_grupo ''Ana'' ''Lopez'' ''Garcia''
          [oc_ejemplo ''1'' ''Ana'' ''Lopez'' ''Garcia'' ''a.json'',
           oc_ejemplo ''9'' ''Ana'' ''Lopez'' ''Garcia'' ''b.json'']"]
    lotes_permutados informe_ejemplo
  by simp

lemma lote_ejemplo_evaluado:
  "map par_orden (fst (analizar_duplicados lote_ejemplo))
     = [(Some 2, ''Ana Lopez Garcia''), (Some 2, ''Ana Lopez Garcia''),
        (Some 2, ''Bob Diaz ''), (Some 2, ''Bob Diaz '')]"
  "map id_registro (fst (analizar_duplicados lote_ejemplo))
     = [JStr ''1'', JStr ''9'', JStr ''2'', JStr ''3'']"
  "map id_registro (fst (analizar_duplicados lote_ejemplo_permutado))
     = [JStr ''9'', JStr ''1'', JStr ''3'', JStr ''2'']"
  "snd (analizar_duplicados lote_ejemplo) = 2"
  by code_simp+

text \<open>
  C3 as stated fails. The whole-tree report of a file with two records of one person
  followed by three of another has the counts 2, 2, 3, 3, 3, which are not descending.
  In the partitioned mode two permutations of one batch give the rows of each name in
  different orders.
\<close>

theorem orden_de_las_filas_counterexample:
  "map f_cantidadOcurrencias (filas_escritas (generar_informe_duplicados (\<lambda>r. Inr ())
      (explorar_directorios (\<lambda>v. []) archivo_sin_orden))) = [2, 2, 3, 3, 3]
   \<and> \<not> sorted_wrt (\<lambda>a b. f_cantidadOcurrencias b \<le> f_cantidadOcurrencias a)
        (filas_escritas (generar_informe_duplicados (\<lambda>r. Inr ())
           (explorar_directorios (\<lambda>v. []) archivo_sin_orden)))
   \<and> mset lote_ejemplo = mset lote_ejemplo_permutado
   \<and> map id_registro (fst (analizar_duplicados lote_ejemplo))
       = [JStr ''1'', JStr ''9'', JStr ''2'', JStr ''3'']
   \<and> map id_registro (fst (analizar_duplicados lote_ejemplo_permutado))
       = [JStr ''9'', JStr ''1'', JStr ''3'', JStr ''2'']"
proof (intro conjI)
  show "map f_cantidadOcurrencias (filas_escritas (generar_informe_duplicados (\<lambda>r. Inr ())
      (explorar_directorios (\<lambda>v. []) archivo_sin_orden))) = [2, 2, 3, 3, 3]"
    by code_simp
  show "\<not> sorted_wrt (\<lambda>a b. f_cantidadOcurrencias b \<le> f_cantidadOcurrencias a)
        (filas_escritas (generar_informe_duplicados (\<lambda>r. Inr ())
           (explorar_directorios (\<lambda>v. []) archivo_sin_orden)))"
    by code_simp
  show "mset lote_ejemplo = mset lote_ejemplo_permutado"
    by (simp add: lote_ejemplo_def lote_ejemplo_permutado_def)
  show "map id_registro (fst (analizar_duplicados lote_ejemplo))
       = [JStr ''1'', JStr ''9'', JStr ''2'', JStr ''3'']"
    by code_simp
  show "map id_registro (fst (analizar_duplicados lote_ejemplo_permutado))
       = [JStr ''9'', JStr ''1'', JStr ''3'', JStr ''2'']"
    by code_simp
qed

lemma count_list_map:
  "count_list (map g xs) v = length (filter (\<lambda>x. g x = v) xs)"
  by (induction xs) auto

lemma conteo_por_nombre_completo:
  assumes "f \<in> set (fst (analizar_duplicados df))"
  shows "cantidadOcurrencias f
           = Some (length (filter (\<lambda>r. nombreCompleto r = nombreCompleto f) df))
     \<and> 2 \<le> length (filter (\<lambda>r. nombreCompleto r = nombreCompleto f) df)"
proof -
  from assms have "f \<in> set (unidos df)" by (simp add: analizar_unidos)
  from fila_de_unidos[OF this] show ?thesis
    by (auto simp: count_list_map)
qed

lemma sin_nombres_repetidos:
  assumes "distinct (map nombreCompleto df)"
  shows "analizar_duplicados df = ([], 0)"
proof -
  have "count_list (map nombreCompleto df) v \<le> 1" for v
    using assms by (induction df) (auto simp: count_list_0_iff)
  then have "filter (duplicated df) df = []"
    by (auto simp: duplicated_def filter_empty_conv not_less)
  then show ?thesis by (simp add: analizar_duplicados_def)
qed

lemma lote_vacio: "analizar_duplicados [] = ([], 0)"
  by (simp add: analizar_duplicados_def)

lemma informe_sin_duplicados:
  assumes "\<forall>(k, os) \<in> set datos. length os \<le> 1"
  shows "generar_informe_duplicados escribir datos = SinDuplicados"
proof -
  from assms have "duplicados_de datos = []"
    by (auto simp: duplicados_de_def filter_empty_conv)
  then show ?thesis by (simp add: generar_informe_duplicados_def)
qed

lemma sin_separador_prefijo:
  "c \<notin> set a \<Longrightarrow> c \<notin> set a' \<Longrightarrow> a @ c # r = a' @ c # r' \<Longrightarrow> a = a' \<and> r = r'"
proof (induction a arbitrary: a')
  case Nil
  then show ?case by (cases a') auto
next
  case (Cons x a)
  then show ?case by (cases a') auto
qed

lemma persona_key_inyectiva:
  assumes "persona_key str_otro (JStr n) (JStr p) (JStr s)
             = persona_key str_otro (JStr n') (JStr p') (JStr s')"
    and "CHR ''|'' \<notin> set n \<union> set p \<union> set n' \<union> set p'"
  shows "n = n' \<and> p = p' \<and> s = s'"
proof -
  from assms(1) have e: "n @ CHR ''|'' # (p @ CHR ''|'' # s) = n' @ CHR ''|'' # (p' @ CHR ''|'' # s')"
    by (simp add: persona_key_def)
  from sin_separador_prefijo[OF _ _ e] assms(2)
  have a: "n = n'" and b: "p @ CHR ''|'' # s = p' @ CHR ''|'' # s'" by auto
  from sin_separador_prefijo[OF _ _ b] assms(2) a show ?thesis by auto
qed

lemma nombre_completo_inyectivo:
  assumes "nombre_completo str_otro (JStr n) (JStr p) (JStr s)
             = nombre_completo str_otro (JStr n') (JStr p') (JStr s')"
    and "CHR '' '' \<notin> set n \<union> set p \<union> set n' \<union> set p'"
  shows "n = n' \<and> p = p' \<and> s = s'"
proof -
  from assms(1) have e: "n @ CHR '' '' # (p @ CHR '' '' # s) = n' @ CHR '' '' # (p' @ CHR '' '' # s')"
    by (simp add: nombre_completo_def)
  from sin_separador_prefijo[OF _ _ e] assms(2)
  have a: "n = n'" and b: "p @ CHR '' '' # s = p' @ CHR '' '' # s'" by auto
  from sin_separador_prefijo[OF _ _ b] assms(2) a show ?thesis by auto
qed

text \<open>
  C1, at the failing inputs. Two records whose name tuples differ are filed in one group:
  in the whole-tree mode (``Ana|Eva'', ``Paz'') and (``Ana'', ``Eva|Paz'') share the key
  ``Ana|Eva|Paz|''; in the partitioned modes (``Juan De'', ``La Cruz'') and
  (``Juan'', ``De La Cruz'') share the full name ``Juan De La Cruz '' and both are
  reported as duplicates. Without the separator in the first two fields the key
  determines the tuple (\<open>persona_key_inyectiva\<close>, \<open>nombre_completo_inyectivo\<close>).
\<close>

theorem clave_compartida_por_identidades_distintas:
  "explorar_directorios (\<lambda>v. []) archivo_barras
     = [(''Ana|Eva|Paz|'',
         [oc_ejemplo ''4'' ''Ana|Eva'' ''Paz'' [] ''a.json'',
          oc_ejemplo ''5'' ''Ana'' ''Eva|Paz'' [] ''a.json''])]
   \<and> identidad_oc (oc_ejemplo ''4'' ''Ana|Eva'' ''Paz'' [] ''a.json'')
       \<noteq> identidad_oc (oc_ejemplo ''5'' ''Ana'' ''Eva|Paz'' [] ''a.json'')
   \<and> leer_archivos_json_directorio (\<lambda>v. []) (Inr archivo_cruz) = (lote_cruz, 1)
   \<and> map identidad lote_cruz
       = [(JStr ''Juan De'', JStr ''La Cruz'', JStr []), (JStr ''Juan'', JStr ''De La Cruz'', JStr [])]
   \<and> map nombreCompleto lote_cruz = [''Juan De La Cruz '', ''Juan De La Cruz '']
   \<and> map id_registro (fst (analizar_duplicados lote_cruz)) = [JStr ''6'', JStr ''7'']"
proof (intro conjI)
  show "explorar_directorios (\<lambda>v. []) archivo_barras
     = [(''Ana|Eva|Paz|'',
         [oc_ejemplo ''4'' ''Ana|Eva'' ''Paz'' [] ''a.json'',
          oc_ejemplo ''5'' ''Ana'' ''Eva|Paz'' [] ''a.json''])]"
    by (simp add: archivo_barras_def evaluar_extraccion)
  show "identidad_oc (oc_ejemplo ''4'' ''Ana|Eva'' ''Paz'' [] ''a.json'')
       \<noteq> identidad_oc (oc_ejemplo ''5'' ''Ana'' ''Eva|Paz'' [] ''a.json'')"
    by (simp add: identidad_oc_def oc_ejemplo_def)
  show "leer_archivos_json_directorio (\<lambda>v. []) (Inr archivo_cruz) = (lote_cruz, 1)"
    by (simp add: archivo_cruz_def lote_cruz_def persona_ejemplo_def elemento_de_def
        leer_archivos_json_directorio_def leer_archivo_def extraer_datos_persona_def
        extraer_cuerpo_def navegar_def luego_def List.map_filter_simps con_ruta_def
        nombre_completo_def)
  show "map identidad lote_cruz
       = [(JStr ''Juan De'', JStr ''La Cruz'', JStr []), (JStr ''Juan'', JStr ''De La Cruz'', JStr [])]"
    by (simp add: lote_cruz_def persona_ejemplo_def identidad_def)
  show "map nombreCompleto lote_cruz = [''Juan De La Cruz '', ''Juan De La Cruz '']"
    by (simp add: lote_cruz_def persona_ejemplo_def)
  show "map id_registro (fst (analizar_duplicados lote_cruz)) = [JStr ''6'', JStr ''7'']"
    by code_simp
qed

text \<open>
  C2, at the failing input. For the batch of the two records (``Juan De'', ``La Cruz'') and
  (``Juan'', ``De La Cruz'') every output row has the count 2, while one record of the
  batch has the row's name tuple. The count is the number of records with the row's full
  name (\<open>conteo_por_nombre_completo\<close>).
\<close>

theorem conteo_mezcla_identidades:
  "map cantidadOcurrencias (fst (analizar_duplicados lote_cruz)) = [Some 2, Some 2]
   \<and> map (\<lambda>f. length (filter (\<lambda>r. identidad r = identidad f) lote_cruz))
        (fst (analizar_duplicados lote_cruz)) = [1, 1]"
  by (intro conjI; code_simp)

text \<open>
  C5, at the failing input. In the batch of the two records (``Juan De'', ``La Cruz'') and
  (``Juan'', ``De La Cruz'') every name tuple occurs once, and the result has two rows and
  one duplicated name. A batch whose full names are all different, and the empty batch,
  give the empty result (\<open>sin_nombres_repetidos\<close>, \<open>lote_vacio\<close>,
  \<open>informe_sin_duplicados\<close>).
\<close>

theorem filas_sin_identidad_repetida:
  "distinct (map identidad lote_cruz)
   \<and> length (fst (analizar_duplicados lote_cruz)) = 2
   \<and> snd (analizar_duplicados lote_cruz) = 1"
  by (intro conjI; code_simp)

end
